theory Spec2Isabelle
  imports Main "HOL-Library.Word" "HOL-Library.Sublist" "HOL-Library.Multiset"
begin

unbundle bit_operations_syntax

section \<open>Data model (src/lib/types.ts as used by src/lib/attendance.ts and src/lib/storage.ts)\<close>

text \<open>
  The ten role categories, as spelled out by the initialisers of \<open>getPrefectStats\<close> and
  \<open>getDailyStats\<close>.
\<close>

datatype PrefectRole =
  Head | Deputy | SeniorExecutive | Executive | SuperSenior
  | Senior | Junior | Sub | Apprentice | GamesCaptain

fun role_name :: "PrefectRole \<Rightarrow> string" where
  "role_name Head = ''Head''"
| "role_name Deputy = ''Deputy''"
| "role_name SeniorExecutive = ''Senior Executive''"
| "role_name Executive = ''Executive''"
| "role_name SuperSenior = ''Super Senior''"
| "role_name Senior = ''Senior''"
| "role_name Junior = ''Junior''"
| "role_name Sub = ''Sub''"
| "role_name Apprentice = ''Apprentice''"
| "role_name GamesCaptain = ''Games Captain''"

text \<open>
  An attendance record as it exists at run time: a JavaScript object whose properties may
  be absent (the type annotations are erased, stored data is whatever \<open>JSON.parse\<close>
  returns, and \<open>Partial<AttendanceRecord>\<close> is the same shape). \<open>None\<close> is an absent
  property. The \<open>timestamp\<close> text (written by \<open>toISOString\<close>) is represented by the time
  value it denotes, in milliseconds since the epoch; property values of another JavaScript
  type than the declared one are outside this model.
\<close>

record AttendanceRecord =
  id :: "string option"
  prefectNumber :: "string option"
  role :: "PrefectRole option"
  timestamp :: "int option"
  date :: "string option"

text \<open>JavaScript truthiness of a string-valued property: present and not empty.\<close>

definition truthy :: "string option \<Rightarrow> bool" where
  "truthy v = (case v of None \<Rightarrow> False | Some s \<Rightarrow> s \<noteq> [])"

text \<open>Role names and ISO date texts are never empty, so presence is truthiness.\<close>

definition present :: "'a option \<Rightarrow> bool" where
  "present v = (case v of None \<Rightarrow> False | Some _ \<Rightarrow> True)"

text \<open>
  Exceptions of the program. \<open>Error m\<close> is \<open>new Error(m)\<close>; the others are the host's:
  \<open>RangeError\<close> for an exhausted call stack, \<open>QuotaExceededError\<close> from
  \<open>localStorage.setItem\<close>, \<open>SyntaxError\<close> from \<open>JSON.parse\<close>, \<open>TypeError\<close> for a
  property read on \<open>undefined\<close>.
\<close>

datatype error = Error string | RangeError | QuotaExceededError | SyntaxError | TypeError

section \<open>Host functions\<close>

text \<open>
  Strings are lists of code units below 256. \<open>Number.prototype.toString()\<close> on a natural
  number and on an integer, and zero-padded decimal fields.
\<close>

definition digit_char :: "nat \<Rightarrow> char" where
  "digit_char n = ''0123456789abcdefghijklmnopqrstuvwxyz'' ! n"

function digits :: "int \<Rightarrow> int \<Rightarrow> string" where
  "digits b n = (if n < b \<or> b < 2 then [digit_char (nat n)]
                 else digits b (n div b) @ [digit_char (nat (n mod b))])"
  by pat_completeness auto
termination
  by (relation "measure (\<lambda>(b, n). nat n)") (auto intro: int_div_less_self)

declare digits.simps [simp del]

definition int_toString :: "int \<Rightarrow> string" where
  "int_toString i = (if i < 0 then CHR ''-'' # digits 10 (- i) else digits 10 i)"

definition nat_toString :: "nat \<Rightarrow> string" where
  "nat_toString n = digits 10 (int n)"

definition digit :: "int \<Rightarrow> char" where
  "digit n = digit_char (nat (n mod 10))"

definition pad2 :: "int \<Rightarrow> string" where
  "pad2 n = [digit (n div 10), digit n]"

definition pad3 :: "int \<Rightarrow> string" where
  "pad3 n = digit (n div 100) # pad2 n"

definition pad4 :: "int \<Rightarrow> string" where
  "pad4 n = digit (n div 1000) # pad3 n"

definition pad6 :: "int \<Rightarrow> string" where
  "pad6 n = digit (n div 100000) # digit (n div 10000) # pad4 n"

text \<open>\<open>Number.prototype.toString(36)\<close> on an integer.\<close>

definition int_toString36 :: "int \<Rightarrow> string" where
  "int_toString36 i = (if i < 0 then CHR ''-'' # digits 36 (- i) else digits 36 i)"

definition msPerDay :: int where
  "msPerDay = 86400000"

text \<open>
  \<open>TimeClip\<close> of ECMAScript: a time value beyond 8.64e15 ms from the epoch is \<open>NaN\<close>
  (an invalid Date), here \<open>None\<close>. \<open>Date.now()\<close> and every valid Date lie within.
\<close>

definition TimeClip :: "int \<Rightarrow> int option" where
  "TimeClip t = (if \<bar>t\<bar> > 8640000000000000 then None else Some t)"

definition validTime :: "int \<Rightarrow> bool" where
  "validTime t = (\<bar>t\<bar> \<le> 8640000000000000)"

text \<open>
  \<open>Date.prototype.toISOString\<close>: the proleptic Gregorian date of the day number, then
  \<open>YYYY-MM-DDTHH:mm:ss.sssZ\<close>, the year with sign and six digits outside 0..9999.
\<close>

definition civil_from_days :: "int \<Rightarrow> int \<times> int \<times> int" where
  "civil_from_days z0 =
     (let z = z0 + 719468;
          era = z div 146097;
          doe = z mod 146097;
          yoe = (doe - doe div 1460 + doe div 36524 - doe div 146096) div 365;
          y = yoe + era * 400;
          doy = doe - (365 * yoe + yoe div 4 - yoe div 100);
          mp = (5 * doy + 2) div 153;
          d = doy - (153 * mp + 2) div 5 + 1;
          m = (if mp < 10 then mp + 3 else mp - 9)
      in (if m \<le> 2 then y + 1 else y, m, d))"

definition year_text :: "int \<Rightarrow> string" where
  "year_text y =
     (if 0 \<le> y \<and> y \<le> 9999 then pad4 y
      else (if y < 0 then CHR ''-'' else CHR ''+'') # pad6 \<bar>y\<bar>)"

definition toISOString :: "int \<Rightarrow> string" where
  "toISOString t =
     (let (y, m, d) = civil_from_days (t div 86400000);
          r = t mod 86400000
      in year_text y @ ''-'' @ pad2 m @ ''-'' @ pad2 d @ ''T''
         @ pad2 (r div 3600000) @ '':'' @ pad2 (r div 60000 mod 60) @ '':''
         @ pad2 (r div 1000 mod 60) @ ''.'' @ pad3 (r mod 1000) @ ''Z'')"

text \<open>
  \<open>Array.prototype.sort(compare)\<close>: a stable sort. For a consistent comparator every
  stable sort gives the same list; insertion from the right is one. The comparator is
  called with the element being inserted on the left.
\<close>

fun insert_by :: "('a \<Rightarrow> 'a \<Rightarrow> int) \<Rightarrow> 'a \<Rightarrow> 'a list \<Rightarrow> 'a list" where
  "insert_by cmp x [] = [x]"
| "insert_by cmp x (y # ys) = (if cmp x y \<le> 0 then x # y # ys else y # insert_by cmp x ys)"

definition sort_by :: "('a \<Rightarrow> 'a \<Rightarrow> int) \<Rightarrow> 'a list \<Rightarrow> 'a list" where
  "sort_by cmp xs = foldr (insert_by cmp) xs []"

text \<open>
  A comparator is consistent on a list when, on its elements, \<open>compare(a, b) \<le> 0\<close> is
  total and transitive; it separates them when it never ties two different elements.
\<close>

definition consistent_on :: "('a \<Rightarrow> 'a \<Rightarrow> int) \<Rightarrow> 'a list \<Rightarrow> bool" where
  "consistent_on cmp xs =
     list_all (\<lambda>a. list_all (\<lambda>b. (cmp a b \<le> 0 \<or> cmp b a \<le> 0)
        \<and> list_all (\<lambda>c. cmp a b \<le> 0 \<and> cmp b c \<le> 0 \<longrightarrow> cmp a c \<le> 0) xs) xs) xs"

definition separates_on :: "('a \<Rightarrow> 'a \<Rightarrow> int) \<Rightarrow> 'a list \<Rightarrow> bool" where
  "separates_on cmp xs =
     list_all (\<lambda>a. list_all (\<lambda>b. cmp a b \<le> 0 \<and> cmp b a \<le> 0 \<longrightarrow> a = b) xs) xs"

text \<open>
  \<open>JSON.stringify\<close> of a string, of a record (the properties that are present, in the
  order in which \<open>saveManualAttendance\<close> creates them) and of an array of records.
\<close>

definition json_escape :: "char \<Rightarrow> string" where
  "json_escape c =
     (let n = (of_char c :: nat)
      in if n = 34 then [CHR 0x5C, CHR 0x22]
         else if n = 92 then [CHR 0x5C, CHR 0x5C]
         else if n = 8 then CHR 0x5C # ''b''
         else if n = 9 then CHR 0x5C # ''t''
         else if n = 10 then CHR 0x5C # ''n''
         else if n = 12 then CHR 0x5C # ''f''
         else if n = 13 then CHR 0x5C # ''r''
         else if n < 32 then CHR 0x5C # ''u00'' @ [digit_char (n div 16), digit_char (n mod 16)]
         else [c])"

definition json_quote :: "string \<Rightarrow> string" where
  "json_quote s = CHR 0x22 # concat (map json_escape s) @ [CHR 0x22]"

fun join :: "string \<Rightarrow> string list \<Rightarrow> string" where
  "join sep [] = []"
| "join sep [x] = x"
| "join sep (x # y # ys) = x @ sep @ join sep (y # ys)"

definition json_member :: "string \<Rightarrow> string option \<Rightarrow> string list" where
  "json_member k v = (case v of None \<Rightarrow> [] | Some s \<Rightarrow> [json_quote k @ '':'' @ json_quote s])"

definition stringify_record :: "AttendanceRecord \<Rightarrow> string" where
  "stringify_record r =
     ''{'' @ join '',''
        (json_member ''id'' (id r) @ json_member ''prefectNumber'' (prefectNumber r)
         @ json_member ''role'' (map_option role_name (role r))
         @ json_member ''timestamp'' (map_option toISOString (timestamp r))
         @ json_member ''date'' (date r))
     @ ''}''"

definition JSON_stringify :: "AttendanceRecord list \<Rightarrow> string" where
  "JSON_stringify records = ''['' @ join '','' (map stringify_record records) @ '']''"

text \<open>
  The rolling hash of \<open>generateDataHash\<close>: \<open>hash = ((hash << 5) - hash) + char\<close>
  followed by \<open>hash = hash & hash\<close>, which keeps the low 32 bits as a signed integer.
\<close>

definition hash_step :: "32 word \<Rightarrow> char \<Rightarrow> 32 word" where
  "hash_step hash c = (push_bit 5 hash - hash) + of_nat (of_char c)"

definition hash_string :: "string \<Rightarrow> 32 word" where
  "hash_string s = foldl hash_step 0 s"

section \<open>The persisted state (the keys of localStorage used by src/lib/storage.ts)\<close>

text \<open>
  An element of a parsed JSON array: an object, or anything else (\<open>null\<close>, a number, a
  string, a boolean), which has none of the four required properties.
\<close>

datatype entry = NotObject | Obj AttendanceRecord

text \<open>
  The text under \<open>prefect_attendance_records\<close>, by what \<open>JSON.parse\<close> makes of it: the
  empty text, a text it rejects, a JSON value that is not an array, or an array.
\<close>

datatype payload = EmptyText | Unparsable | NotArray | Entries "entry list"

text \<open>
  A snapshot under a key \<open>attendance_backup_<millis>\<close> (automatic) or
  \<open>attendance_backup_manual_<millis>\<close>, as the backup functions write it.
\<close>

datatype backup_key = Automatic int | Manual int

fun key_timestamp :: "backup_key \<Rightarrow> int" where
  "key_timestamp (Automatic t) = t"
| "key_timestamp (Manual t) = t"

record backup =
  b_timestamp :: int
  b_records :: "AttendanceRecord list"

record localStorage =
  ATTENDANCE_RECORDS :: "payload option"
  DATA_INTEGRITY_HASH :: "string option"
  BACKUP_METADATA :: "(int \<times> nat) option"
  STORAGE_QUOTA_WARNING :: "int option"
  backups :: "(backup_key \<times> backup) list"

text \<open>
  The host environment: whether \<open>window\<close> and \<open>localStorage\<close> exist; the local time zone
  (offset from UTC in milliseconds, taken as constant); the locale's rendering of a
  calendar day (\<open>Date.prototype.toLocaleDateString\<close>) and its collation
  (\<open>String.prototype.localeCompare\<close>); the storage quota, as the set of contents that
  fit (\<open>localStorage.setItem\<close> throws \<open>QuotaExceededError\<close> when the contents after the
  write would not); and the outcome \<open>percentage > 90\<close> of \<open>checkStorageQuota\<close>, whose
  measurement (the key and value lengths, up to 1024 probe writes of 1 KB that are removed
  again, a floating-point quotient) leaves the contents as they were.
\<close>

record host =
  isBrowser :: bool
  tzOffset :: int
  toLocaleDateString :: "int \<Rightarrow> string"
  localeCompare :: "string \<Rightarrow> string \<Rightarrow> int"
  fits :: "localStorage \<Rightarrow> bool"
  quotaOver90 :: "localStorage \<Rightarrow> bool"

text \<open>\<open>getHours\<close>, \<open>getMinutes\<close>, \<open>getSeconds\<close> of a valid Date, in local time.\<close>

definition getHours :: "host \<Rightarrow> int \<Rightarrow> int" where
  "getHours h t = ((t + tzOffset h) div 3600000) mod 24"

definition getMinutes :: "host \<Rightarrow> int \<Rightarrow> int" where
  "getMinutes h t = ((t + tzOffset h) div 60000) mod 60"

definition getSeconds :: "host \<Rightarrow> int \<Rightarrow> int" where
  "getSeconds h t = ((t + tzOffset h) div 1000) mod 60"

text \<open>
  A host for the examples: a browser in UTC whose storage never fills up, which renders a
  calendar day as its day number and collates by code unit.
\<close>

fun code_unit_compare :: "string \<Rightarrow> string \<Rightarrow> int" where
  "code_unit_compare [] [] = 0"
| "code_unit_compare [] (y # ys) = - 1"
| "code_unit_compare (x # xs) [] = 1"
| "code_unit_compare (x # xs) (y # ys) =
     (if (of_char x :: nat) < of_char y then - 1
      else if (of_char y :: nat) < of_char x then 1
      else code_unit_compare xs ys)"

definition utc_browser :: host where
  "utc_browser =
     \<lparr>isBrowser = True, tzOffset = 0,
      toLocaleDateString = (\<lambda>t. int_toString (t div 86400000)),
      localeCompare = code_unit_compare,
      fits = (\<lambda>_. True), quotaOver90 = (\<lambda>_. False)\<rparr>"

section \<open>Admin lockout guard (src/lib/attendance.ts, checkAdminAccess)\<close>

definition MAX_FAILED_ATTEMPTS :: nat where
  "MAX_FAILED_ATTEMPTS = 10"

definition LOCKOUT_DURATION :: int where
  "LOCKOUT_DURATION = 15 * 60 * 1000"

definition ADMIN_PIN :: string where
  "ADMIN_PIN = ''apple''"

text \<open>
  The two \<open>localStorage\<close> keys of the guard. Each holds the decimal text of a number
  written by \<open>checkAdminAccess\<close> itself, represented by that number; \<open>None\<close> is a key that
  is not set, which \<open>Number(getItem(k) || '0')\<close> reads as 0.
\<close>

record AdminLockoutState =
  admin_failed_attempts :: "nat option"
  admin_lockout_time :: "int option"

definition stored_number :: "'a::zero option \<Rightarrow> 'a" where
  "stored_number v = (case v of None \<Rightarrow> 0 | Some n \<Rightarrow> n)"

text \<open>\<open>Math.ceil(d / 60000)\<close> for an integer \<open>d\<close>.\<close>

definition ceil_minutes :: "int \<Rightarrow> int" where
  "ceil_minutes d = - ((- d) div 60000)"

definition locked_message :: "int \<Rightarrow> string" where
  "locked_message remainingMinutes =
     ''Account is locked. Please try again in '' @ int_toString remainingMinutes @ '' minutes.''"

definition too_many_message :: string where
  "too_many_message =
     ''Too many failed attempts. Account locked for '' @ int_toString (LOCKOUT_DURATION div 60000)
       @ '' minutes.''"

definition invalid_pin_message :: "nat \<Rightarrow> string" where
  "invalid_pin_message remainingAttempts =
     ''Invalid PIN. '' @ nat_toString remainingAttempts @ '' ''
       @ (if remainingAttempts = 1 then ''attempt'' else ''attempts'') @ '' remaining.''"

text \<open>
  \<open>checkAdminAccess(pin)\<close> at the instant \<open>now = Date.now()\<close>: the result (a thrown error or
  the returned boolean) and the two keys afterwards.
\<close>

definition checkAdminAccess ::
  "host \<Rightarrow> int \<Rightarrow> string \<Rightarrow> AdminLockoutState \<Rightarrow> (error + bool) \<times> AdminLockoutState" where
  "checkAdminAccess h now pin s =
     (if \<not> isBrowser h then (Inr False, s)
      else
        let storedLockoutTime = stored_number (admin_lockout_time s) in
        if now < storedLockoutTime then
          (Inl (Error (locked_message (ceil_minutes (storedLockoutTime - now)))), s)
        else if pin = ADMIN_PIN then
          (Inr True, s\<lparr>admin_failed_attempts := None, admin_lockout_time := None\<rparr>)
        else
          let failedAttempts = stored_number (admin_failed_attempts s) + 1;
              s1 = s\<lparr>admin_failed_attempts := Some failedAttempts\<rparr>
          in if failedAttempts \<ge> MAX_FAILED_ATTEMPTS then
               (Inl (Error too_many_message), s1\<lparr>admin_lockout_time := Some (now + LOCKOUT_DURATION)\<rparr>)
             else
               (Inl (Error (invalid_pin_message (MAX_FAILED_ATTEMPTS - failedAttempts))), s1))"

text \<open>A run of calls, each at its own instant with its own PIN: the results in order, and the keys afterwards.\<close>

fun attempts :: "host \<Rightarrow> (int \<times> string) list \<Rightarrow> AdminLockoutState \<Rightarrow> (error + bool) list \<times> AdminLockoutState" where
  "attempts h [] s = ([], s)"
| "attempts h (a # rest) s =
     (fst (checkAdminAccess h (fst a) (snd a) s)
        # fst (attempts h rest (snd (checkAdminAccess h (fst a) (snd a) s))),
      snd (attempts h rest (snd (checkAdminAccess h (fst a) (snd a) s))))"

section \<open>On-time classification (getPrefectStats, getDailyStats, the two report exports)\<close>

text \<open>
  The test written out four times in the source:
  \<open>time.getHours() < 7 || (time.getHours() === 7 && time.getMinutes() === 0)\<close>
  with \<open>time = new Date(record.timestamp)\<close>. An absent timestamp gives an invalid Date,
  whose hours are \<open>NaN\<close>: both comparisons are false.
\<close>

definition isOnTime :: "host \<Rightarrow> AttendanceRecord \<Rightarrow> bool" where
  "isOnTime h r =
     (case timestamp r of
        None \<Rightarrow> False
      | Some t \<Rightarrow> getHours h t < 7 \<or> (getHours h t = 7 \<and> getMinutes h t = 0))"

text \<open>
  \<open>String.prototype.toLowerCase\<close> on code units below 256 (the Basic Latin and Latin-1
  letters), and \<open>String.prototype.includes\<close>.
\<close>

definition lower_char :: "char \<Rightarrow> char" where
  "lower_char c =
     (let n = (of_char c :: nat)
      in if (65 \<le> n \<and> n \<le> 90) \<or> (192 \<le> n \<and> n \<le> 222 \<and> n \<noteq> 215) then char_of (n + 32) else c)"

definition toLowerCase :: "string \<Rightarrow> string" where
  "toLowerCase s = map lower_char s"

fun str_includes :: "string \<Rightarrow> string \<Rightarrow> bool" where
  "str_includes [] q = (q = [])"
| "str_includes (c # cs) q = (prefix q (c # cs) \<or> str_includes cs q)"

text \<open>
  The comparator \<open>(a, b) => new Date(b.timestamp).getTime() - new Date(a.timestamp).getTime()\<close>.
  With an absent timestamp the difference is \<open>NaN\<close>, which \<open>sort\<close> reads as 0.
\<close>

definition byTimestampDesc :: "AttendanceRecord \<Rightarrow> AttendanceRecord \<Rightarrow> int" where
  "byTimestampDesc a b =
     (case (timestamp a, timestamp b) of (Some x, Some y) \<Rightarrow> y - x | _ \<Rightarrow> 0)"

section \<open>The storage manager (src/lib/storage.ts)\<close>

text \<open>
  The functions below are those of an initialised \<open>AttendanceStorageManager\<close> (the
  constructor's migration, first integrity check and timers are not part of a call), behind
  the \<open>StorageManagerProxy\<close>, whose only addition is a repeated \<open>isBrowser\<close> test.
  Listeners and console output have no effect on the persisted state and are left out.
  \<open>now\<close> is the value of \<open>Date.now()\<close> during the call.
\<close>

definition MAX_STORAGE_SIZE :: int where
  "MAX_STORAGE_SIZE = 4718592"

type_synonym 'a outcome = "(error + 'a) \<times> localStorage"

text \<open>
  \<open>localStorage.setItem\<close>: the second state is the first with the key written.
\<close>

definition setItem :: "host \<Rightarrow> localStorage \<Rightarrow> localStorage \<Rightarrow> unit outcome" where
  "setItem h st st' = (if fits h st' then (Inr (), st') else (Inl QuotaExceededError, st))"

text \<open>
  The structural test of \<open>getRecords\<close>, \<open>attemptDataRecovery\<close> and \<open>restoreFromBackup\<close>:
  \<open>record.id && record.prefectNumber && record.role && record.timestamp\<close>, on an
  element that is an object.
\<close>

definition valid_record :: "AttendanceRecord \<Rightarrow> bool" where
  "valid_record r =
     (truthy (id r) \<and> truthy (prefectNumber r) \<and> present (role r) \<and> present (timestamp r))"

fun valid_records :: "entry list \<Rightarrow> AttendanceRecord list" where
  "valid_records [] = []"
| "valid_records (NotObject # es) = valid_records es"
| "valid_records (Obj r # es) = (if valid_record r then r # valid_records es else valid_records es)"

text \<open>
  \<open>generateDataHash\<close>. The comparator \<open>a.id.localeCompare(b.id)\<close> throws a \<open>TypeError\<close>
  when \<open>a.id\<close> is absent, and reads an absent \<open>b.id\<close> as the text \<open>undefined\<close>; in the
  sort every element but the last is inserted, and is then the left operand.
\<close>

definition id_text :: "AttendanceRecord \<Rightarrow> string" where
  "id_text r = (case id r of None \<Rightarrow> ''undefined'' | Some s \<Rightarrow> s)"

definition byId :: "host \<Rightarrow> AttendanceRecord \<Rightarrow> AttendanceRecord \<Rightarrow> int" where
  "byId h a b = localeCompare h (id_text a) (id_text b)"

definition generateDataHash :: "host \<Rightarrow> AttendanceRecord list \<Rightarrow> error + string" where
  "generateDataHash h data =
     (if list_ex (\<lambda>r. id r = None) (butlast data) then Inl TypeError
      else Inr (int_toString36 (sint (hash_string (JSON_stringify (sort_by (byId h) data))))))"

text \<open>\<open>cleanOldBackups\<close> and \<open>getLatestBackup\<close>; both catch whatever they throw.\<close>

definition byKeyTimestampDesc :: "backup_key \<times> backup \<Rightarrow> backup_key \<times> backup \<Rightarrow> int" where
  "byKeyTimestampDesc a b = key_timestamp (fst b) - key_timestamp (fst a)"

definition cleanOldBackups :: "host \<Rightarrow> localStorage \<Rightarrow> localStorage" where
  "cleanOldBackups h st =
     (if \<not> isBrowser h then st
      else let sortedBackups = sort_by byKeyTimestampDesc (backups st);
               doomed = map fst (drop 5 sortedBackups)
           in st\<lparr>backups := filter (\<lambda>kb. \<not> List.member doomed (fst kb)) (backups st)\<rparr>)"

definition getLatestBackup :: "host \<Rightarrow> localStorage \<Rightarrow> backup option" where
  "getLatestBackup h st =
     (if \<not> isBrowser h then None
      else case sort_by byKeyTimestampDesc (backups st) of
             [] \<Rightarrow> None
           | kb # _ \<Rightarrow> Some (snd kb))"

text \<open>
  The six functions that call each other. The natural number bounds the depth of their
  nested calls: a call that would exceed the host's call stack throws \<open>RangeError\<close> where
  it is made, and the catch blocks treat it like any other exception.
\<close>

fun getRecords :: "host \<Rightarrow> int \<Rightarrow> nat \<Rightarrow> localStorage \<Rightarrow> AttendanceRecord list outcome"
  and handleStorageError :: "host \<Rightarrow> int \<Rightarrow> nat \<Rightarrow> error \<Rightarrow> localStorage \<Rightarrow> unit outcome"
  and attemptDataRecovery :: "host \<Rightarrow> int \<Rightarrow> nat \<Rightarrow> localStorage \<Rightarrow> bool outcome"
  and handleQuotaExceeded :: "host \<Rightarrow> int \<Rightarrow> nat \<Rightarrow> localStorage \<Rightarrow> unit outcome"
  and saveRecords :: "host \<Rightarrow> int \<Rightarrow> nat \<Rightarrow> AttendanceRecord list \<Rightarrow> localStorage \<Rightarrow> unit outcome"
  and updateBackupMetadata :: "host \<Rightarrow> int \<Rightarrow> nat \<Rightarrow> localStorage \<Rightarrow> unit outcome"
where
  "getRecords h now 0 st = (Inl RangeError, st)"
| "getRecords h now (Suc n) st =
     (if \<not> isBrowser h then (Inr [], st)
      else case ATTENDANCE_RECORDS st of
        None \<Rightarrow> (Inr [], st)
      | Some EmptyText \<Rightarrow> (Inr [], st)
      | Some Unparsable \<Rightarrow>
          (case handleStorageError h now n SyntaxError st of
             (Inl e, st1) \<Rightarrow> (Inl e, st1)
           | (Inr _, st1) \<Rightarrow> (Inr [], st1))
      | Some NotArray \<Rightarrow> (Inr [], st)
      | Some (Entries es) \<Rightarrow> (Inr (valid_records es), st))"
| "handleStorageError h now 0 e st = (Inl RangeError, st)"
| "handleStorageError h now (Suc n) e st =
     (if \<not> isBrowser h then (Inr (), st)
      else if e = QuotaExceededError then handleQuotaExceeded h now n st
      else case attemptDataRecovery h now n st of
             (Inl e', st1) \<Rightarrow> (Inl e', st1)
           | (Inr _, st1) \<Rightarrow> (Inr (), st1))"
| "attemptDataRecovery h now 0 st = (Inl RangeError, st)"
| "attemptDataRecovery h now (Suc n) st =
     (if \<not> isBrowser h then (Inr False, st)
      else case getLatestBackup h st of
        Some backupData \<Rightarrow>
          (case saveRecords h now n (b_records backupData) st of
             (Inl e, st1) \<Rightarrow> (Inr False, st1)
           | (Inr _, st1) \<Rightarrow> (Inr True, st1))
      | None \<Rightarrow>
          (case getRecords h now n st of
             (Inl e, st1) \<Rightarrow> (Inr False, st1)
           | (Inr records, st1) \<Rightarrow>
               (if length (filter valid_record records) \<noteq> length records
                then (case saveRecords h now n (filter valid_record records) st1 of
                        (Inl e, st2) \<Rightarrow> (Inr False, st2)
                      | (Inr _, st2) \<Rightarrow> (Inr True, st2))
                else (Inr True, st1))))"
| "handleQuotaExceeded h now 0 st = (Inl RangeError, st)"
| "handleQuotaExceeded h now (Suc n) st =
     (if \<not> isBrowser h then (Inr (), st)
      else case getRecords h now n (cleanOldBackups h st) of
        (Inl e, st1) \<Rightarrow> (Inr (), st1)
      | (Inr records, st1) \<Rightarrow>
          (case (if length records > 1000
                 then saveRecords h now n (take 800 (sort_by byTimestampDesc records)) st1
                 else (Inr (), st1)) of
             (Inl e, st2) \<Rightarrow> (Inr (), st2)
           | (Inr _, st2) \<Rightarrow>
               (Inr (), snd (setItem h st2 (st2\<lparr>STORAGE_QUOTA_WARNING := Some now\<rparr>)))))"
| "saveRecords h now 0 records st = (Inl RangeError, st)"
| "saveRecords h now (Suc n) records st =
     (if \<not> isBrowser h then (Inr (), st)
      else case
          (case (if quotaOver90 h st then handleQuotaExceeded h now n st else (Inr (), st)) of
             (Inl e, st1) \<Rightarrow> (Inl e, st1)
           | (Inr _, st1) \<Rightarrow>
               (if int (length (JSON_stringify records)) > MAX_STORAGE_SIZE
                then (Inl (Error ''Data size exceeds maximum storage limit''), st1)
                else case setItem h st1 (st1\<lparr>ATTENDANCE_RECORDS := Some (Entries (map Obj records))\<rparr>) of
                  (Inl e, st2) \<Rightarrow> (Inl e, st2)
                | (Inr _, st2) \<Rightarrow>
                    (case generateDataHash h records of
                       Inl e \<Rightarrow> (Inl e, st2)
                     | Inr hash \<Rightarrow>
                         (case setItem h st2 (st2\<lparr>DATA_INTEGRITY_HASH := Some hash\<rparr>) of
                            (Inl e, st3) \<Rightarrow> (Inl e, st3)
                          | (Inr _, st3) \<Rightarrow> updateBackupMetadata h now n st3)))) of
        (Inr _, st4) \<Rightarrow> (Inr (), st4)
      | (Inl error, st4) \<Rightarrow>
          (case handleStorageError h now n error st4 of
             (Inl e', st5) \<Rightarrow> (Inl e', st5)
           | (Inr _, st5) \<Rightarrow> (Inl error, st5)))"
| "updateBackupMetadata h now 0 st = (Inl RangeError, st)"
| "updateBackupMetadata h now (Suc n) st =
     (if \<not> isBrowser h then (Inr (), st)
      else case getRecords h now n st of
        (Inl e, st1) \<Rightarrow> (Inr (), st1)
      | (Inr records, st1) \<Rightarrow>
          (Inr (), snd (setItem h st1 (st1\<lparr>BACKUP_METADATA := Some (now, length records)\<rparr>))))"

text \<open>The public operations on top of them. None of these catches what its callees throw,
  except where a \<open>try\<close> is written out.\<close>

definition addRecord :: "host \<Rightarrow> int \<Rightarrow> nat \<Rightarrow> AttendanceRecord \<Rightarrow> localStorage \<Rightarrow> unit outcome" where
  "addRecord h now n record st =
     (if \<not> isBrowser h then (Inr (), st)
      else case getRecords h now n st of
        (Inl e, st1) \<Rightarrow> (Inl e, st1)
      | (Inr records, st1) \<Rightarrow> saveRecords h now n (records @ [record]) st1)"

fun findIndex :: "('a \<Rightarrow> bool) \<Rightarrow> 'a list \<Rightarrow> nat option" where
  "findIndex P [] = None"
| "findIndex P (x # xs) = (if P x then Some 0 else map_option Suc (findIndex P xs))"

text \<open>The object spread \<open>{ ...record, ...updates }\<close>: a property of \<open>updates\<close> wins.\<close>

definition or_else :: "'a option \<Rightarrow> 'a option \<Rightarrow> 'a option" where
  "or_else u v = (case u of None \<Rightarrow> v | Some x \<Rightarrow> Some x)"

definition merge_record :: "AttendanceRecord \<Rightarrow> AttendanceRecord \<Rightarrow> AttendanceRecord" where
  "merge_record r updates =
     \<lparr>id = or_else (id updates) (id r),
      prefectNumber = or_else (prefectNumber updates) (prefectNumber r),
      role = or_else (role updates) (role r),
      timestamp = or_else (timestamp updates) (timestamp r),
      date = or_else (date updates) (date r)\<rparr>"

definition not_browser_error :: error where
  "not_browser_error = Error ''Storage operations are only available in browser environment''"

definition updateRecord ::
  "host \<Rightarrow> int \<Rightarrow> nat \<Rightarrow> string \<Rightarrow> AttendanceRecord \<Rightarrow> localStorage \<Rightarrow> AttendanceRecord outcome" where
  "updateRecord h now n i updates st =
     (if \<not> isBrowser h then (Inl not_browser_error, st)
      else case getRecords h now n st of
        (Inl e, st1) \<Rightarrow> (Inl e, st1)
      | (Inr records, st1) \<Rightarrow>
          (case findIndex (\<lambda>r. id r = Some i) records of
             None \<Rightarrow> (Inl (Error ''Record not found''), st1)
           | Some index \<Rightarrow>
               (case saveRecords h now n
                       (records[index := merge_record (records ! index) updates]) st1 of
                  (Inl e, st2) \<Rightarrow> (Inl e, st2)
                | (Inr _, st2) \<Rightarrow> (Inr (merge_record (records ! index) updates), st2))))"

definition deleteRecord :: "host \<Rightarrow> int \<Rightarrow> nat \<Rightarrow> string \<Rightarrow> localStorage \<Rightarrow> unit outcome" where
  "deleteRecord h now n i st =
     (if \<not> isBrowser h then (Inr (), st)
      else case getRecords h now n st of
        (Inl e, st1) \<Rightarrow> (Inl e, st1)
      | (Inr records, st1) \<Rightarrow> saveRecords h now n (filter (\<lambda>r. id r \<noteq> Some i) records) st1)"

text \<open>
  A backup text, by what \<open>JSON.parse\<close> and the test
  \<open>!backupData.records || !Array.isArray(backupData.records)\<close> make of it: rejected by
  the parser; the value \<open>null\<close>, on which the property read throws; a value without an
  array under \<open>records\<close>; a snapshot with its array. The text that \<open>createManualBackup\<close>
  returns is of the last kind.
\<close>

datatype backup_text = Unparsable_text | Null_json | No_records_array | Snapshot "entry list"

fun set_backup :: "backup_key \<Rightarrow> backup \<Rightarrow> (backup_key \<times> backup) list \<Rightarrow> (backup_key \<times> backup) list" where
  "set_backup k b [] = [(k, b)]"
| "set_backup k b (kb # kbs) = (if fst kb = k then (k, b) # kbs else kb # set_backup k b kbs)"

definition createManualBackup :: "host \<Rightarrow> int \<Rightarrow> nat \<Rightarrow> localStorage \<Rightarrow> backup_text outcome" where
  "createManualBackup h now n st =
     (if \<not> isBrowser h then (Inl not_browser_error, st)
      else case getRecords h now n st of
        (Inl e, st1) \<Rightarrow> (Inl e, st1)
      | (Inr records, st1) \<Rightarrow>
          (case setItem h st1
                  (st1\<lparr>backups := set_backup (Manual now)
                                     \<lparr>b_timestamp = now, b_records = records\<rparr> (backups st1)\<rparr>) of
             (Inl e, st2) \<Rightarrow> (Inl e, st2)
           | (Inr _, st2) \<Rightarrow> (Inr (Snapshot (map Obj records)), st2)))"

definition restoreFromBackup :: "host \<Rightarrow> int \<Rightarrow> nat \<Rightarrow> backup_text \<Rightarrow> localStorage \<Rightarrow> unit outcome" where
  "restoreFromBackup h now n backupString st =
     (if \<not> isBrowser h then (Inl not_browser_error, st)
      else case backupString of
        Unparsable_text \<Rightarrow> (Inl SyntaxError, st)
      | Null_json \<Rightarrow> (Inl TypeError, st)
      | No_records_array \<Rightarrow> (Inl (Error ''Invalid backup format''), st)
      | Snapshot es \<Rightarrow> saveRecords h now n (valid_records es) st)"

section \<open>The attendance operations (src/lib/attendance.ts)\<close>

definition MAX_DAYS :: int where
  "MAX_DAYS = 999999999"

definition checkDuplicateAttendance ::
  "host \<Rightarrow> int \<Rightarrow> nat \<Rightarrow> string \<Rightarrow> PrefectRole \<Rightarrow> string \<Rightarrow> localStorage \<Rightarrow> bool outcome" where
  "checkDuplicateAttendance h now n p ro d st =
     (case getRecords h now n st of
        (Inl e, st1) \<Rightarrow> (Inl e, st1)
      | (Inr records, st1) \<Rightarrow>
          (Inr (list_ex (\<lambda>r. prefectNumber r = Some p \<and> role r = Some ro \<and> date r = Some d) records), st1))"

text \<open>
  \<open>cleanOldRecords\<close>. \<open>cutoff.setDate(cutoff.getDate() - MAX_DAYS)\<close> moves the local date
  back by \<open>MAX_DAYS\<close> days and clips the result (\<open>TimeClip\<close>); with a constant offset
  between local time and UTC that is \<open>now - MAX_DAYS * msPerDay\<close>, clipped. A
  comparison \<open>new Date(record.timestamp) > cutoff\<close> with an invalid Date on either side is
  false. The whole body is inside \<open>try\<close>.
\<close>

definition cutoff_date :: "int \<Rightarrow> int option" where
  "cutoff_date now = TimeClip (now - MAX_DAYS * msPerDay)"

definition newer_than :: "int option \<Rightarrow> AttendanceRecord \<Rightarrow> bool" where
  "newer_than cutoff r =
     (case (timestamp r, cutoff) of (Some t, Some c) \<Rightarrow> t > c | _ \<Rightarrow> False)"

definition cleanOldRecords :: "host \<Rightarrow> int \<Rightarrow> nat \<Rightarrow> localStorage \<Rightarrow> localStorage" where
  "cleanOldRecords h now n st =
     (case getRecords h now n st of
        (Inl e, st1) \<Rightarrow> st1
      | (Inr records, st1) \<Rightarrow>
          (if length (filter (newer_than (cutoff_date now)) records) \<noteq> length records
           then snd (saveRecords h now n (filter (newer_than (cutoff_date now)) records) st1)
           else st1))"

definition duplicate_today_message :: "string \<Rightarrow> PrefectRole \<Rightarrow> string" where
  "duplicate_today_message p ro =
     ''A prefect with number '' @ p @ '' has already registered for role '' @ role_name ro @ '' today.''"

text \<open>
  \<open>saveManualAttendance\<close>; \<open>uuid\<close> is what \<open>crypto.randomUUID()\<close> returns and
  \<open>ts\<close> the time value of the \<open>timestamp\<close> argument, a valid Date.
\<close>

definition saveManualAttendance ::
  "host \<Rightarrow> int \<Rightarrow> nat \<Rightarrow> string \<Rightarrow> string \<Rightarrow> PrefectRole \<Rightarrow> int \<Rightarrow> localStorage
     \<Rightarrow> AttendanceRecord outcome" where
  "saveManualAttendance h now n uuid p ro ts st =
     (case checkDuplicateAttendance h now n p ro (toLocaleDateString h ts) st of
        (Inl e, st1) \<Rightarrow> (Inl e, st1)
      | (Inr True, st1) \<Rightarrow> (Inl (Error (duplicate_today_message p ro)), st1)
      | (Inr False, st1) \<Rightarrow>
          (case addRecord h now n
                  \<lparr>id = Some uuid, prefectNumber = Some p, role = Some ro, timestamp = Some ts,
                   date = Some (toLocaleDateString h ts)\<rparr> st1 of
             (Inl e, st2) \<Rightarrow> (Inl (Error ''Failed to save attendance record. Please try again.''), st2)
           | (Inr _, st2) \<Rightarrow>
               (Inr \<lparr>id = Some uuid, prefectNumber = Some p, role = Some ro, timestamp = Some ts,
                     date = Some (toLocaleDateString h ts)\<rparr>,
                cleanOldRecords h now n st2)))"

definition saveAttendance ::
  "host \<Rightarrow> int \<Rightarrow> nat \<Rightarrow> string \<Rightarrow> string \<Rightarrow> PrefectRole \<Rightarrow> localStorage \<Rightarrow> AttendanceRecord outcome" where
  "saveAttendance h now n uuid p ro st = saveManualAttendance h now n uuid p ro now st"

text \<open>
  \<open>saveBulkAttendance\<close>. \<open>error.message\<close> of a thrown value: the text given to
  \<open>new Error\<close>, or the host's text for its own errors. The k-th entry, if it comes to
  create a record, gets the identifier \<open>uuids k\<close>.
\<close>

fun error_message :: "error \<Rightarrow> string" where
  "error_message (Error m) = m"
| "error_message RangeError = ''Maximum call stack size exceeded''"
| "error_message QuotaExceededError = ''The quota has been exceeded.''"
| "error_message SyntaxError = ''Unexpected token''"
| "error_message TypeError = ''Cannot read properties of undefined''"

record bulk_result =
  success :: "AttendanceRecord list"
  errors :: "(string \<times> PrefectRole \<times> string) list"

definition bulk_entry ::
  "host \<Rightarrow> int \<Rightarrow> nat \<Rightarrow> string \<Rightarrow> int \<Rightarrow> string \<times> PrefectRole \<Rightarrow> bulk_result \<times> localStorage
     \<Rightarrow> bulk_result \<times> localStorage" where
  "bulk_entry h now n uuid ts entry acc =
     (case checkDuplicateAttendance h now n (fst entry) (snd entry) (toLocaleDateString h ts) (snd acc) of
        (Inl e, st1) \<Rightarrow>
          ((fst acc)\<lparr>errors := errors (fst acc) @ [(fst entry, snd entry, error_message e)]\<rparr>, st1)
      | (Inr True, st1) \<Rightarrow>
          ((fst acc)\<lparr>errors := errors (fst acc)
              @ [(fst entry, snd entry, ''Already registered for '' @ role_name (snd entry) @ '' today'')]\<rparr>, st1)
      | (Inr False, st1) \<Rightarrow>
          (case saveManualAttendance h now n uuid (fst entry) (snd entry) ts st1 of
             (Inl e, st2) \<Rightarrow>
               ((fst acc)\<lparr>errors := errors (fst acc) @ [(fst entry, snd entry, error_message e)]\<rparr>, st2)
           | (Inr record, st2) \<Rightarrow>
               ((fst acc)\<lparr>success := success (fst acc) @ [record]\<rparr>, st2)))"

fun bulk_loop ::
  "host \<Rightarrow> int \<Rightarrow> nat \<Rightarrow> (nat \<Rightarrow> string) \<Rightarrow> int \<Rightarrow> nat \<Rightarrow> (string \<times> PrefectRole) list
     \<Rightarrow> bulk_result \<times> localStorage \<Rightarrow> bulk_result \<times> localStorage" where
  "bulk_loop h now n uuids ts k [] acc = acc"
| "bulk_loop h now n uuids ts k (entry # rest) acc =
     bulk_loop h now n uuids ts (Suc k) rest (bulk_entry h now n (uuids k) ts entry acc)"

definition saveBulkAttendance ::
  "host \<Rightarrow> int \<Rightarrow> nat \<Rightarrow> (nat \<Rightarrow> string) \<Rightarrow> (string \<times> PrefectRole) list \<Rightarrow> int \<Rightarrow> localStorage
     \<Rightarrow> bulk_result \<times> localStorage" where
  "saveBulkAttendance h now n uuids attendanceData ts st =
     bulk_loop h now n uuids ts 0 attendanceData (\<lparr>success = [], errors = []\<rparr>, st)"

text \<open>
  \<open>updateAttendance\<close>. \<open>a || b\<close> on properties: the first if it is truthy, else the
  second. The comparisons \<open>===\<close> also hold between two absent properties.
\<close>

definition truthy_or :: "string option \<Rightarrow> string option \<Rightarrow> string option" where
  "truthy_or u v = (if truthy u then u else v)"

definition text_of :: "string option \<Rightarrow> string" where
  "text_of v = (case v of None \<Rightarrow> ''undefined'' | Some s \<Rightarrow> s)"

definition duplicate_on_message :: "string option \<Rightarrow> PrefectRole option \<Rightarrow> string option \<Rightarrow> string" where
  "duplicate_on_message p ro d =
     ''A prefect with number '' @ text_of p @ '' has already registered for role ''
       @ text_of (map_option role_name ro) @ '' on '' @ text_of d @ ''.''"

definition updateAttendance ::
  "host \<Rightarrow> int \<Rightarrow> nat \<Rightarrow> string \<Rightarrow> AttendanceRecord \<Rightarrow> localStorage \<Rightarrow> AttendanceRecord outcome" where
  "updateAttendance h now n i updates st =
     (case getRecords h now n st of
        (Inl e, st1) \<Rightarrow> (Inl e, st1)
      | (Inr records, st1) \<Rightarrow>
          (case find (\<lambda>r. id r = Some i) records of
             None \<Rightarrow> (Inl (Error ''Record not found''), st1)
           | Some existingRecord \<Rightarrow>
               (if (truthy (prefectNumber updates) \<or> present (role updates))
                   \<and> list_ex (\<lambda>r. id r \<noteq> Some i
                          \<and> prefectNumber r = truthy_or (prefectNumber updates) (prefectNumber existingRecord)
                          \<and> role r = or_else (role updates) (role existingRecord)
                          \<and> date r = truthy_or (date updates) (date existingRecord)) records
                then (Inl (Error (duplicate_on_message
                        (truthy_or (prefectNumber updates) (prefectNumber existingRecord))
                        (or_else (role updates) (role existingRecord))
                        (truthy_or (date updates) (date existingRecord)))), st1)
                else case updateRecord h now n i updates st1 of
                       (Inl e, st2) \<Rightarrow>
                         (Inl (Error ''Failed to update attendance record. Please try again.''), st2)
                     | (Inr r, st2) \<Rightarrow> (Inr r, st2))))"

definition deleteAttendance :: "host \<Rightarrow> int \<Rightarrow> nat \<Rightarrow> string \<Rightarrow> localStorage \<Rightarrow> unit outcome" where
  "deleteAttendance h now n i st =
     (case deleteRecord h now n i st of
        (Inl e, st1) \<Rightarrow> (Inl (Error ''Failed to delete attendance record. Please try again.''), st1)
      | (Inr _, st1) \<Rightarrow> (Inr (), st1))"

section \<open>Search and statistics (src/lib/attendance.ts)\<close>

text \<open>
  Each function below is the source function after its first line: \<open>records\<close> is what
  \<open>storageManager.getRecords()\<close> returned. \<open>record.prefectNumber.toLowerCase()\<close> throws a
  \<open>TypeError\<close> when the property is absent.
\<close>

definition searchPrefectRecords :: "AttendanceRecord list \<Rightarrow> string \<Rightarrow> error + AttendanceRecord list" where
  "searchPrefectRecords records q =
     (if list_ex (\<lambda>r. prefectNumber r = None) records then Inl TypeError
      else Inr (sort_by byTimestampDesc
             (filter (\<lambda>r. str_includes (toLowerCase (the (prefectNumber r))) (toLowerCase q)) records)))"

text \<open>
  The statistics objects. \<open>attendanceRate\<close>, a floating-point quotient of two of the
  counters, is left out. \<open>stats.roles[record.role]++\<close> with an absent role touches none of
  the ten counters.
\<close>

record PrefectStats =
  totalDays :: nat
  onTimeDays :: nat
  lateDays :: nat
  roles :: "PrefectRole \<Rightarrow> nat"
  recentRecords :: "AttendanceRecord list"

record DailyStats =
  total :: nat
  onTime :: nat
  late :: nat
  byRole :: "PrefectRole \<Rightarrow> nat"

definition bump_role :: "PrefectRole option \<Rightarrow> (PrefectRole \<Rightarrow> nat) \<Rightarrow> (PrefectRole \<Rightarrow> nat)" where
  "bump_role ro f = (case ro of None \<Rightarrow> f | Some x \<Rightarrow> f(x := f x + 1))"

definition countPrefectRecord :: "host \<Rightarrow> PrefectStats \<Rightarrow> AttendanceRecord \<Rightarrow> PrefectStats" where
  "countPrefectRecord h stats r =
     (if isOnTime h r then stats\<lparr>onTimeDays := onTimeDays stats + 1\<rparr>
      else stats\<lparr>lateDays := lateDays stats + 1\<rparr>)\<lparr>roles := bump_role (role r) (roles stats)\<rparr>"

definition getPrefectStats :: "host \<Rightarrow> AttendanceRecord list \<Rightarrow> string \<Rightarrow> error + PrefectStats" where
  "getPrefectStats h records q =
     (case searchPrefectRecords records q of
        Inl e \<Rightarrow> Inl e
      | Inr found \<Rightarrow>
          Inr (foldl (countPrefectRecord h)
                 \<lparr>totalDays = length found, onTimeDays = 0, lateDays = 0, roles = (\<lambda>_. 0),
                  recentRecords = take 10 found\<rparr>
                 found))"

definition countDailyRecord :: "host \<Rightarrow> DailyStats \<Rightarrow> AttendanceRecord \<Rightarrow> DailyStats" where
  "countDailyRecord h stats r =
     (if isOnTime h r then stats\<lparr>onTime := onTime stats + 1\<rparr>
      else stats\<lparr>late := late stats + 1\<rparr>)\<lparr>byRole := bump_role (role r) (byRole stats)\<rparr>"

definition getDailyStats :: "host \<Rightarrow> AttendanceRecord list \<Rightarrow> string \<Rightarrow> DailyStats" where
  "getDailyStats h records d =
     (let found = filter (\<lambda>r. date r = Some d) records
      in foldl (countDailyRecord h) \<lparr>total = length found, onTime = 0, late = 0, byRole = (\<lambda>_. 0)\<rparr> found)"

text \<open>The \<open>Status\<close> column of the two CSV reports.\<close>

definition reportStatus :: "host \<Rightarrow> AttendanceRecord \<Rightarrow> string" where
  "reportStatus h r = (if isOnTime h r then ''On Time'' else ''Late'')"

text \<open>The length of a string-valued property, 0 when it is absent.\<close>

definition olen :: "string option \<Rightarrow> nat" where
  "olen v = (case v of None \<Rightarrow> 0 | Some s \<Rightarrow> length s)"

section \<open>Example data\<close>

text \<open>
  A browser under storage pressure: \<open>checkStorageQuota\<close> reports more than 90 per cent
  whatever is stored (a simulated 95 per cent), and writes still succeed. A sample record
  for each day number \<open>k\<close>, and a store that holds a given list of records and nothing
  else.
\<close>

definition pressed_browser :: host where
  "pressed_browser = utc_browser\<lparr>quotaOver90 := (\<lambda>_. True)\<rparr>"

definition sample_record :: "nat \<Rightarrow> AttendanceRecord" where
  "sample_record k =
     \<lparr>id = Some (pad4 (int k)), prefectNumber = Some ''42'', role = Some Senior,
      timestamp = Some (int k * 86400000), date = Some (pad4 (int k))\<rparr>"

definition store_of :: "AttendanceRecord list \<Rightarrow> localStorage" where
  "store_of records =
     \<lparr>ATTENDANCE_RECORDS = Some (Entries (map Obj records)), DATA_INTEGRITY_HASH = None,
      BACKUP_METADATA = None, STORAGE_QUOTA_WARNING = None, backups = []\<rparr>"


section \<open>Properties of the admin lockout guard\<close>

lemma checkAdminAccess_locked:
  "isBrowser h \<Longrightarrow> now < stored_number (admin_lockout_time s) \<Longrightarrow>
   checkAdminAccess h now pin s =
     (Inl (Error (locked_message (ceil_minutes (stored_number (admin_lockout_time s) - now)))), s)"
  by (simp add: checkAdminAccess_def)

lemma checkAdminAccess_wrong:
  "isBrowser h \<Longrightarrow> \<not> now < stored_number (admin_lockout_time s) \<Longrightarrow> pin \<noteq> ADMIN_PIN \<Longrightarrow>
   checkAdminAccess h now pin s =
     (let c = stored_number (admin_failed_attempts s) + 1 in
      if c \<ge> 10
      then (Inl (Error too_many_message),
            s\<lparr>admin_failed_attempts := Some c, admin_lockout_time := Some (now + LOCKOUT_DURATION)\<rparr>)
      else (Inl (Error (invalid_pin_message (10 - c))), s\<lparr>admin_failed_attempts := Some c\<rparr>))"
  by (simp add: checkAdminAccess_def Let_def MAX_FAILED_ATTEMPTS_def)

text \<open>Fewer than ten wrong PINs in a row, none of them during a lock-out: each is counted.\<close>

lemma attempts_wrong:
  "isBrowser h \<Longrightarrow>
   \<forall>(t, p) \<in> set as. \<not> t < stored_number (admin_lockout_time s) \<and> p \<noteq> ADMIN_PIN \<Longrightarrow>
   stored_number (admin_failed_attempts s) = c \<Longrightarrow> c + length as < 10 \<Longrightarrow>
   attempts h as s =
     (map (\<lambda>k. Inl (Error (invalid_pin_message (10 - k)))) [c + 1..<c + length as + 1],
      if as = [] then s else s\<lparr>admin_failed_attempts := Some (c + length as)\<rparr>)"
proof (induction as arbitrary: s c)
  case Nil
  then show ?case by simp
next
  case (Cons a as)
  obtain t p where a: "a = (t, p)" by (cases a)
  let ?s1 = "s\<lparr>admin_failed_attempts := Some (c + 1)\<rparr>"
  have step: "checkAdminAccess h t p s = (Inl (Error (invalid_pin_message (10 - (c + 1)))), ?s1)"
    using Cons.prems a by (simp add: checkAdminAccess_wrong Let_def)
  have c1: "stored_number (admin_failed_attempts ?s1) = c + 1"
    by (simp add: stored_number_def)
  have pre: "\<forall>(t, p) \<in> set as. \<not> t < stored_number (admin_lockout_time ?s1) \<and> p \<noteq> ADMIN_PIN"
    using Cons.prems(2) by simp
  have len: "c + 1 + length as < 10" using Cons.prems(4) by simp
  have IH: "attempts h as ?s1 =
     (map (\<lambda>k. Inl (Error (invalid_pin_message (10 - k)))) [c + 1 + 1..<c + 1 + length as + 1],
      if as = [] then ?s1 else ?s1\<lparr>admin_failed_attempts := Some (c + 1 + length as)\<rparr>)"
    by (rule Cons.IH[OF Cons.prems(1) pre c1 len])
  have u: "[c + 1..<c + length (a # as) + 1] = (c + 1) # [c + 1 + 1..<c + 1 + length as + 1]"
  proof -
    have e1: "c + length (a # as) + 1 = Suc (c + 1 + length as)" by simp
    have e2: "c + 1 + 1 = Suc (c + 1)" by simp
    have e3: "c + 1 + length as + 1 = Suc (c + 1 + length as)" by simp
    have lt: "c + 1 < Suc (c + 1 + length as)" by simp
    show ?thesis unfolding e1 e2 e3 by (rule upt_conv_Cons[OF lt])
  qed
  have st: "(if as = [] then ?s1 else ?s1\<lparr>admin_failed_attempts := Some (c + 1 + length as)\<rparr>)
      = s\<lparr>admin_failed_attempts := Some (c + length (a # as))\<rparr>"
    by simp
  have "attempts h (a # as) s =
      (Inl (Error (invalid_pin_message (10 - (c + 1)))) #
         map (\<lambda>k. Inl (Error (invalid_pin_message (10 - k)))) [c + 1 + 1..<c + 1 + length as + 1],
       if as = [] then ?s1 else ?s1\<lparr>admin_failed_attempts := Some (c + 1 + length as)\<rparr>)"
    by (simp only: a attempts.simps step IH fst_conv snd_conv)
  then show ?case unfolding u st by (simp only: list.map list.distinct if_False)
qed

lemma attempts_append:
  "attempts h (as @ bs) s =
     (fst (attempts h as s) @ fst (attempts h bs (snd (attempts h as s))),
      snd (attempts h bs (snd (attempts h as s))))"
  by (induction as arbitrary: s) simp_all

lemma ten_wrong_attempts:
  assumes br: "isBrowser h" and len: "length as = 10"
    and wrong: "\<forall>(t, p) \<in> set as. 0 \<le> t \<and> p \<noteq> ADMIN_PIN"
  shows "attempts h as \<lparr>admin_failed_attempts = None, admin_lockout_time = None\<rparr> =
     (map (\<lambda>k. Inl (Error (invalid_pin_message (10 - k)))) [1..<10] @ [Inl (Error too_many_message)],
      \<lparr>admin_failed_attempts = Some 10, admin_lockout_time = Some (fst (last as) + LOCKOUT_DURATION)\<rparr>)"
proof -
  let ?s0 = "\<lparr>admin_failed_attempts = None, admin_lockout_time = None\<rparr>"
  let ?s9 = "\<lparr>admin_failed_attempts = Some 9, admin_lockout_time = None\<rparr>"
  define R :: "(error + bool) list"
    where "R = map (\<lambda>k. Inl (Error (invalid_pin_message (10 - k)))) [1..<10]"
  have ne: "as \<noteq> []" using len by auto
  have split: "as = butlast as @ [last as]" using ne by simp
  have l9: "length (butlast as) = 9" using len by simp
  have ne9: "butlast as \<noteq> []" using l9 by (auto simp del: length_butlast)
  have w9: "\<forall>(t, p) \<in> set (butlast as). \<not> t < stored_number (admin_lockout_time ?s0) \<and> p \<noteq> ADMIN_PIN"
    using wrong by (auto simp: stored_number_def dest!: in_set_butlastD)
  have c0: "stored_number (admin_failed_attempts ?s0) = 0" by (simp add: stored_number_def)
  have lt: "0 + length (butlast as) < 10" using l9 by (simp del: length_butlast)
  have first9: "attempts h (butlast as) ?s0 = (R, ?s9)"
    unfolding attempts_wrong[OF br w9 c0 lt] R_def l9 using ne9 by simp
  have tenth: "checkAdminAccess h (fst (last as)) (snd (last as)) ?s9 =
      (Inl (Error too_many_message),
       \<lparr>admin_failed_attempts = Some 10, admin_lockout_time = Some (fst (last as) + LOCKOUT_DURATION)\<rparr>)"
  proof -
    have "last as \<in> set as" using ne by simp
    then have "0 \<le> fst (last as)" "snd (last as) \<noteq> ADMIN_PIN" using wrong by auto
    then show ?thesis
      using br by (simp add: checkAdminAccess_wrong stored_number_def Let_def)
  qed
  have "attempts h (butlast as @ [last as]) ?s0 =
     (R @ [Inl (Error too_many_message)],
      \<lparr>admin_failed_attempts = Some 10, admin_lockout_time = Some (fst (last as) + LOCKOUT_DURATION)\<rparr>)"
    by (simp only: attempts_append first9 attempts.simps tenth fst_conv snd_conv)
  then show ?thesis unfolding R_def using split by simp
qed

text \<open>
  Claim C3 (admin lockout state machine). In a browser: a wrong PIN outside a lock-out
  increments the stored failure counter; the attempt that brings the counter to 10 stores
  a lock-out expiry 15 minutes after the attempt and fails with the lock-out message,
  an earlier mismatch fails with the invalid-PIN message and the attempts remaining;
  while the expiry is in the future every attempt, whatever the PIN, fails with the
  lock-out message (with the minutes remaining) and changes nothing; outside a lock-out
  the right PIN succeeds and removes counter and expiry; and from a reset guard, ten wrong
  attempts in a row give nine invalid-PIN failures and one lock-out, after which an 11th
  call inside the 15 minutes fails with the lock-out message whatever its PIN.
\<close>

theorem checkAdminAccess_lockout:
  assumes br: "isBrowser h"
  shows
    "(\<not> now < stored_number (admin_lockout_time s) \<and> pin \<noteq> ADMIN_PIN \<longrightarrow>
        checkAdminAccess h now pin s =
          (if stored_number (admin_failed_attempts s) + 1 \<ge> 10
           then (Inl (Error too_many_message),
                 s\<lparr>admin_failed_attempts := Some (stored_number (admin_failed_attempts s) + 1),
                   admin_lockout_time := Some (now + 15 * 60 * 1000)\<rparr>)
           else (Inl (Error (invalid_pin_message (10 - (stored_number (admin_failed_attempts s) + 1)))),
                 s\<lparr>admin_failed_attempts := Some (stored_number (admin_failed_attempts s) + 1)\<rparr>)))
     \<and> (now < stored_number (admin_lockout_time s) \<longrightarrow>
        checkAdminAccess h now pin s =
          (Inl (Error (locked_message (ceil_minutes (stored_number (admin_lockout_time s) - now)))), s))
     \<and> (\<not> now < stored_number (admin_lockout_time s) \<longrightarrow>
        checkAdminAccess h now ADMIN_PIN s =
          (Inr True, s\<lparr>admin_failed_attempts := None, admin_lockout_time := None\<rparr>))
     \<and> (length as = 10 \<and> (\<forall>(t, p) \<in> set as. 0 \<le> t \<and> p \<noteq> ADMIN_PIN)
          \<and> t11 < fst (last as) + 15 * 60 * 1000 \<longrightarrow>
        (let s10 = \<lparr>admin_failed_attempts = Some 10,
                     admin_lockout_time = Some (fst (last as) + 15 * 60 * 1000)\<rparr>
         in attempts h as \<lparr>admin_failed_attempts = None, admin_lockout_time = None\<rparr> =
              (map (\<lambda>k. Inl (Error (invalid_pin_message (10 - k)))) [1..<10]
                 @ [Inl (Error too_many_message)], s10)
            \<and> checkAdminAccess h t11 pin s10 =
              (Inl (Error (locked_message (ceil_minutes (fst (last as) + 15 * 60 * 1000 - t11)))), s10)))"
proof (intro conjI impI)
  assume "\<not> now < stored_number (admin_lockout_time s) \<and> pin \<noteq> ADMIN_PIN"
  then show "checkAdminAccess h now pin s =
          (if stored_number (admin_failed_attempts s) + 1 \<ge> 10
           then (Inl (Error too_many_message),
                 s\<lparr>admin_failed_attempts := Some (stored_number (admin_failed_attempts s) + 1),
                   admin_lockout_time := Some (now + 15 * 60 * 1000)\<rparr>)
           else (Inl (Error (invalid_pin_message (10 - (stored_number (admin_failed_attempts s) + 1)))),
                 s\<lparr>admin_failed_attempts := Some (stored_number (admin_failed_attempts s) + 1)\<rparr>))"
    using br by (simp add: checkAdminAccess_wrong Let_def LOCKOUT_DURATION_def)
next
  assume "now < stored_number (admin_lockout_time s)"
  then show "checkAdminAccess h now pin s =
          (Inl (Error (locked_message (ceil_minutes (stored_number (admin_lockout_time s) - now)))), s)"
    using br by (simp add: checkAdminAccess_locked)
next
  assume "\<not> now < stored_number (admin_lockout_time s)"
  then show "checkAdminAccess h now ADMIN_PIN s =
          (Inr True, s\<lparr>admin_failed_attempts := None, admin_lockout_time := None\<rparr>)"
    using br by (simp add: checkAdminAccess_def)
next
  assume a: "length as = 10 \<and> (\<forall>(t, p) \<in> set as. 0 \<le> t \<and> p \<noteq> ADMIN_PIN)
          \<and> t11 < fst (last as) + 15 * 60 * 1000"
  let ?s10 = "\<lparr>admin_failed_attempts = Some 10,
                     admin_lockout_time = Some (fst (last as) + 15 * 60 * 1000)\<rparr>"
  have run: "attempts h as \<lparr>admin_failed_attempts = None, admin_lockout_time = None\<rparr> =
              (map (\<lambda>k. Inl (Error (invalid_pin_message (10 - k)))) [1..<10]
                 @ [Inl (Error too_many_message)], ?s10)"
    using ten_wrong_attempts[OF br, of as] a by (simp add: LOCKOUT_DURATION_def)
  have lk: "t11 < stored_number (admin_lockout_time ?s10)"
    using a by (simp add: stored_number_def)
  have "checkAdminAccess h t11 pin ?s10 =
              (Inl (Error (locked_message (ceil_minutes (fst (last as) + 15 * 60 * 1000 - t11)))), ?s10)"
    using checkAdminAccess_locked[OF br lk, of pin] by (simp add: stored_number_def)
  with run show "let s10 = ?s10
         in attempts h as \<lparr>admin_failed_attempts = None, admin_lockout_time = None\<rparr> =
              (map (\<lambda>k. Inl (Error (invalid_pin_message (10 - k)))) [1..<10]
                 @ [Inl (Error too_many_message)], s10)
            \<and> checkAdminAccess h t11 pin s10 =
              (Inl (Error (locked_message (ceil_minutes (fst (last as) + 15 * 60 * 1000 - t11)))), s10)"
    by (simp only: Let_def)
qed

theorem checkAdminAccess_lockout_witness:
  "isBrowser utc_browser
   \<and> checkAdminAccess utc_browser 5000 ''pear'' \<lparr>admin_failed_attempts = Some 3, admin_lockout_time = None\<rparr>
       = (Inl (Error ''Invalid PIN. 6 attempts remaining.''),
          \<lparr>admin_failed_attempts = Some 4, admin_lockout_time = None\<rparr>)
   \<and> checkAdminAccess utc_browser 5000 ''pear'' \<lparr>admin_failed_attempts = Some 9, admin_lockout_time = None\<rparr>
       = (Inl (Error ''Too many failed attempts. Account locked for 15 minutes.''),
          \<lparr>admin_failed_attempts = Some 10, admin_lockout_time = Some 905000\<rparr>)
   \<and> checkAdminAccess utc_browser 20000 ''apple'' \<lparr>admin_failed_attempts = Some 10, admin_lockout_time = Some 910000\<rparr>
       = (Inl (Error ''Account is locked. Please try again in 15 minutes.''),
          \<lparr>admin_failed_attempts = Some 10, admin_lockout_time = Some 910000\<rparr>)
   \<and> checkAdminAccess utc_browser 910000 ''apple'' \<lparr>admin_failed_attempts = Some 10, admin_lockout_time = Some 910000\<rparr>
       = (Inr True, \<lparr>admin_failed_attempts = None, admin_lockout_time = None\<rparr>)
   \<and> snd (attempts utc_browser
          [(1000, ''a''), (2000, ''b''), (3000, ''c''), (4000, ''d''), (5000, ''e''),
           (6000, ''f''), (7000, ''g''), (8000, ''h''), (9000, ''i''), (10000, ''j'')]
          \<lparr>admin_failed_attempts = None, admin_lockout_time = None\<rparr>)
       = \<lparr>admin_failed_attempts = Some 10, admin_lockout_time = Some 910000\<rparr>"
proof -
  have b: "isBrowser utc_browser" by (simp add: utc_browser_def)
  have m6: "invalid_pin_message 6 = ''Invalid PIN. 6 attempts remaining.''"
    by code_simp
  have tm: "too_many_message = ''Too many failed attempts. Account locked for 15 minutes.''"
    by code_simp
  have lm: "locked_message (ceil_minutes 890000) = ''Account is locked. Please try again in 15 minutes.''"
    by code_simp
  have pin: "ADMIN_PIN = ''apple''" by (simp add: ADMIN_PIN_def)
  note T = checkAdminAccess_lockout[OF b]
  have c1: "checkAdminAccess utc_browser 5000 ''pear'' \<lparr>admin_failed_attempts = Some 3, admin_lockout_time = None\<rparr>
       = (Inl (Error ''Invalid PIN. 6 attempts remaining.''),
          \<lparr>admin_failed_attempts = Some 4, admin_lockout_time = None\<rparr>)"
    using T[of 5000 "\<lparr>admin_failed_attempts = Some 3, admin_lockout_time = None\<rparr>" "''pear''" "[]" 0]
    by (simp add: stored_number_def pin m6)
  have c2: "checkAdminAccess utc_browser 5000 ''pear'' \<lparr>admin_failed_attempts = Some 9, admin_lockout_time = None\<rparr>
       = (Inl (Error ''Too many failed attempts. Account locked for 15 minutes.''),
          \<lparr>admin_failed_attempts = Some 10, admin_lockout_time = Some 905000\<rparr>)"
    using T[of 5000 "\<lparr>admin_failed_attempts = Some 9, admin_lockout_time = None\<rparr>" "''pear''" "[]" 0]
    by (simp add: stored_number_def pin tm)
  have c3: "checkAdminAccess utc_browser 20000 ''apple'' \<lparr>admin_failed_attempts = Some 10, admin_lockout_time = Some 910000\<rparr>
       = (Inl (Error ''Account is locked. Please try again in 15 minutes.''),
          \<lparr>admin_failed_attempts = Some 10, admin_lockout_time = Some 910000\<rparr>)"
    using T[of 20000 "\<lparr>admin_failed_attempts = Some 10, admin_lockout_time = Some 910000\<rparr>" "''apple''" "[]" 0]
    by (simp add: stored_number_def lm)
  have c4: "checkAdminAccess utc_browser 910000 ''apple'' \<lparr>admin_failed_attempts = Some 10, admin_lockout_time = Some 910000\<rparr>
       = (Inr True, \<lparr>admin_failed_attempts = None, admin_lockout_time = None\<rparr>)"
    using T[of 910000 "\<lparr>admin_failed_attempts = Some 10, admin_lockout_time = Some 910000\<rparr>" "''apple''" "[]" 0]
    by (simp add: stored_number_def pin)
  have c5: "snd (attempts utc_browser
          [(1000, ''a''), (2000, ''b''), (3000, ''c''), (4000, ''d''), (5000, ''e''),
           (6000, ''f''), (7000, ''g''), (8000, ''h''), (9000, ''i''), (10000, ''j'')]
          \<lparr>admin_failed_attempts = None, admin_lockout_time = None\<rparr>)
       = \<lparr>admin_failed_attempts = Some 10, admin_lockout_time = Some 910000\<rparr>"
    using T[of 0 "\<lparr>admin_failed_attempts = None, admin_lockout_time = None\<rparr>" "''apple''"
          "[(1000, ''a''), (2000, ''b''), (3000, ''c''), (4000, ''d''), (5000, ''e''),
           (6000, ''f''), (7000, ''g''), (8000, ''h''), (9000, ''i''), (10000, ''j'')]" 20000]
    by (simp add: pin Let_def)
  show ?thesis using b c1 c2 c3 c4 c5 by simp
qed

section \<open>Properties of the on-time classification\<close>

lemma foldl_countDailyRecord:
  "onTime (foldl (countDailyRecord h) s rs) = onTime s + length (filter (isOnTime h) rs)
   \<and> late (foldl (countDailyRecord h) s rs) = late s + length (filter (\<lambda>r. \<not> isOnTime h r) rs)
   \<and> total (foldl (countDailyRecord h) s rs) = total s"
  by (induction rs arbitrary: s) (simp_all add: countDailyRecord_def)

lemma foldl_countPrefectRecord:
  "onTimeDays (foldl (countPrefectRecord h) s rs) = onTimeDays s + length (filter (isOnTime h) rs)
   \<and> lateDays (foldl (countPrefectRecord h) s rs) = lateDays s + length (filter (\<lambda>r. \<not> isOnTime h r) rs)
   \<and> totalDays (foldl (countPrefectRecord h) s rs) = totalDays s"
  by (induction rs arbitrary: s) (simp_all add: countPrefectRecord_def)

text \<open>
  Claim C4 as stated asks for a record timestamped 07:00:01 to be late. The test reads
  hours and minutes only: in a browser in UTC the record of 1970-01-01T07:00:01Z has local
  hour 7, minute 0, second 1, and the daily statistics and the report column count it on
  time.
\<close>

theorem on_time_0701_counterexample:
  "getHours utc_browser 25201000 = 7 \<and> getMinutes utc_browser 25201000 = 0
   \<and> getSeconds utc_browser 25201000 = 1
   \<and> late (getDailyStats utc_browser
        [\<lparr>id = Some ''a1'', prefectNumber = Some ''42'', role = Some Senior,
          timestamp = Some 25201000, date = Some ''1/1/1970''\<rparr>] ''1/1/1970'') \<noteq> 1
   \<and> reportStatus utc_browser
        \<lparr>id = Some ''a1'', prefectNumber = Some ''42'', role = Some Senior,
         timestamp = Some 25201000, date = Some ''1/1/1970''\<rparr> \<noteq> ''Late''"
  by (simp add: getDailyStats_def countDailyRecord_def reportStatus_def isOnTime_def
      getHours_def getMinutes_def getSeconds_def utc_browser_def)

text \<open>
  Claim C4, amended. The daily statistics, the per-prefect statistics and the status
  column of the reports count a record on time iff its local hour is below 7, or its hour
  is 7 and its minute is 0, and late otherwise. So a record of 07:00:00 is on time, one of
  06:59:59 is on time, one of 07:00:01 (any second of the minute 07:00) is on time, and
  one of 07:01:00 is late.
\<close>

theorem on_time_classification:
  "onTime (getDailyStats h records d)
      = length (filter (isOnTime h) (filter (\<lambda>r. date r = Some d) records))
   \<and> late (getDailyStats h records d)
      = length (filter (\<lambda>r. \<not> isOnTime h r) (filter (\<lambda>r. date r = Some d) records))
   \<and> (getPrefectStats h records q = Inr st \<and> searchPrefectRecords records q = Inr found \<longrightarrow>
        onTimeDays st = length (filter (isOnTime h) found)
        \<and> lateDays st = length (filter (\<lambda>r. \<not> isOnTime h r) found))
   \<and> (reportStatus h r = ''On Time'' \<longleftrightarrow> isOnTime h r)
   \<and> (reportStatus h r = ''Late'' \<longleftrightarrow> \<not> isOnTime h r)
   \<and> (timestamp r = Some t \<longrightarrow>
        (isOnTime h r \<longleftrightarrow> getHours h t < 7 \<or> (getHours h t = 7 \<and> getMinutes h t = 0)))
   \<and> (timestamp a = Some ta \<and> getHours h ta = 7 \<and> getMinutes h ta = 0 \<and> getSeconds h ta = 0
        \<longrightarrow> isOnTime h a)
   \<and> (timestamp b = Some tb \<and> getHours h tb = 6 \<and> getMinutes h tb = 59 \<and> getSeconds h tb = 59
        \<longrightarrow> isOnTime h b)
   \<and> (timestamp c = Some tc \<and> getHours h tc = 7 \<and> getMinutes h tc = 0 \<and> getSeconds h tc = 1
        \<longrightarrow> isOnTime h c)
   \<and> (timestamp e = Some te \<and> getHours h te = 7 \<and> getMinutes h te = 1 \<and> getSeconds h te = 0
        \<longrightarrow> \<not> isOnTime h e)"
  by (auto simp: getDailyStats_def getPrefectStats_def Let_def foldl_countDailyRecord
      foldl_countPrefectRecord reportStatus_def isOnTime_def split: sum.splits)

theorem on_time_classification_witness:
  "getHours utc_browser 25200000 = 7 \<and> getMinutes utc_browser 25200000 = 0 \<and> getSeconds utc_browser 25200000 = 0
   \<and> isOnTime utc_browser \<lparr>id = Some ''a'', prefectNumber = Some ''42'', role = Some Senior,
        timestamp = Some 25200000, date = Some ''1/1/1970''\<rparr>
   \<and> getHours utc_browser 25199000 = 6 \<and> getMinutes utc_browser 25199000 = 59 \<and> getSeconds utc_browser 25199000 = 59
   \<and> isOnTime utc_browser \<lparr>id = Some ''b'', prefectNumber = Some ''42'', role = Some Senior,
        timestamp = Some 25199000, date = Some ''1/1/1970''\<rparr>
   \<and> getHours utc_browser 25201000 = 7 \<and> getMinutes utc_browser 25201000 = 0 \<and> getSeconds utc_browser 25201000 = 1
   \<and> isOnTime utc_browser \<lparr>id = Some ''c'', prefectNumber = Some ''42'', role = Some Senior,
        timestamp = Some 25201000, date = Some ''1/1/1970''\<rparr>
   \<and> getHours utc_browser 25260000 = 7 \<and> getMinutes utc_browser 25260000 = 1 \<and> getSeconds utc_browser 25260000 = 0
   \<and> \<not> isOnTime utc_browser \<lparr>id = Some ''e'', prefectNumber = Some ''42'', role = Some Senior,
        timestamp = Some 25260000, date = Some ''1/1/1970''\<rparr>
   \<and> searchPrefectRecords
        [\<lparr>id = Some ''e'', prefectNumber = Some ''42'', role = Some Senior,
          timestamp = Some 25260000, date = Some ''1/1/1970''\<rparr>] ''42''
      = Inr [\<lparr>id = Some ''e'', prefectNumber = Some ''42'', role = Some Senior,
          timestamp = Some 25260000, date = Some ''1/1/1970''\<rparr>]
   \<and> (\<exists>st. getPrefectStats utc_browser
        [\<lparr>id = Some ''e'', prefectNumber = Some ''42'', role = Some Senior,
          timestamp = Some 25260000, date = Some ''1/1/1970''\<rparr>] ''42'' = Inr st
        \<and> onTimeDays st = 0 \<and> lateDays st = 1)"
proof -
  let ?a = "\<lparr>id = Some ''a'', prefectNumber = Some ''42'', role = Some Senior,
        timestamp = Some 25200000, date = Some ''1/1/1970''\<rparr>"
  let ?b = "\<lparr>id = Some ''b'', prefectNumber = Some ''42'', role = Some Senior,
        timestamp = Some 25199000, date = Some ''1/1/1970''\<rparr>"
  let ?c = "\<lparr>id = Some ''c'', prefectNumber = Some ''42'', role = Some Senior,
        timestamp = Some 25201000, date = Some ''1/1/1970''\<rparr>"
  let ?e = "\<lparr>id = Some ''e'', prefectNumber = Some ''42'', role = Some Senior,
        timestamp = Some 25260000, date = Some ''1/1/1970''\<rparr>"
  have times:
    "getHours utc_browser 25200000 = 7 \<and> getMinutes utc_browser 25200000 = 0 \<and> getSeconds utc_browser 25200000 = 0"
    "getHours utc_browser 25199000 = 6 \<and> getMinutes utc_browser 25199000 = 59 \<and> getSeconds utc_browser 25199000 = 59"
    "getHours utc_browser 25201000 = 7 \<and> getMinutes utc_browser 25201000 = 0 \<and> getSeconds utc_browser 25201000 = 1"
    "getHours utc_browser 25260000 = 7 \<and> getMinutes utc_browser 25260000 = 1 \<and> getSeconds utc_browser 25260000 = 0"
    by (simp_all add: getHours_def getMinutes_def getSeconds_def utc_browser_def)
  have low: "toLowerCase ''42'' = ''42''"
    by (simp add: toLowerCase_def lower_char_def)
  have srch: "searchPrefectRecords [?e] ''42'' = Inr [?e]"
    by (simp add: searchPrefectRecords_def low sort_by_def)
  obtain st where st: "getPrefectStats utc_browser [?e] ''42'' = Inr st"
    by (simp add: getPrefectStats_def srch)
  note T = on_time_classification[of utc_browser "[?e]" "''1/1/1970''" "''42''" st "[?e]" ?e 25260000
      ?a 25200000 ?b 25199000 ?c 25201000 ?e 25260000]
  have ne: "\<not> isOnTime utc_browser ?e"
    by (simp add: isOnTime_def times)
  have T3: "onTimeDays st = length (filter (isOnTime utc_browser) [?e])
        \<and> lateDays st = length (filter (\<lambda>r. \<not> isOnTime utc_browser r) [?e])"
    using T st srch by blast
  have cnt: "onTimeDays st = 0 \<and> lateDays st = 1"
    using T3 ne by simp
  have ia: "isOnTime utc_browser ?a"
    using T times(1) by simp
  have ib: "isOnTime utc_browser ?b"
    using T times(2) by simp
  have ic: "isOnTime utc_browser ?c"
    using T times(3) by simp
  have ie: "\<not> isOnTime utc_browser ?e"
    using T times(4) by simp
  have ex: "\<exists>st. getPrefectStats utc_browser [?e] ''42'' = Inr st \<and> onTimeDays st = 0 \<and> lateDays st = 1"
    using st cnt by blast
  show ?thesis
    using times ia ib ic ie srch ex by (intro conjI) simp_all
qed

section \<open>Properties of the storage manager\<close>

lemma attemptDataRecovery_returns:
  "\<exists>b st'. attemptDataRecovery h now (Suc n) st = (Inr b, st')"
  by (auto split: option.splits prod.splits sum.splits)

lemma handleQuotaExceeded_returns:
  "\<exists>st'. handleQuotaExceeded h now (Suc n) st = (Inr (), st')"
  by (auto split: option.splits prod.splits sum.splits)

lemma updateBackupMetadata_returns:
  "\<exists>st'. updateBackupMetadata h now (Suc n) st = (Inr (), st')"
  by (auto split: option.splits prod.splits sum.splits)

lemma handleStorageError_returns:
  "\<exists>st'. handleStorageError h now (Suc (Suc n)) e st = (Inr (), st')"
proof -
  obtain b st1 where a: "attemptDataRecovery h now (Suc n) st = (Inr b, st1)"
    using attemptDataRecovery_returns by blast
  obtain st2 where q: "handleQuotaExceeded h now (Suc n) st = (Inr (), st2)"
    using handleQuotaExceeded_returns by blast
  show ?thesis
    unfolding handleStorageError.simps(2)[of h now "Suc n" e st] a q by simp
qed

lemma valid_records_conv:
  "valid_records es = [r. Obj r \<leftarrow> es, valid_record r]"
  by (induction es rule: valid_records.induct) simp_all

lemma getRecords_parsed:
  "isBrowser h \<Longrightarrow> ATTENDANCE_RECORDS st = Some (Entries es) \<Longrightarrow>
   getRecords h now (Suc n) st = (Inr (valid_records es), st)"
  by simp

text \<open>
  Claim C8 (getRecords is a total read). With at least three frames of call stack left,
  \<open>getRecords\<close> returns a list, whatever is stored: for a stored array, the elements
  that are objects with truthy \<open>id\<close>, \<open>prefectNumber\<close>, \<open>role\<close> and \<open>timestamp\<close>, in
  order, the store untouched; the empty list when the key is missing, empty, not an array,
  or rejected by the parser (after the recovery attempt of \<open>handleStorageError\<close>). It
  never throws to its caller.
\<close>

theorem getRecords_total:
  assumes "3 \<le> n"
  shows "\<exists>records st'. getRecords h now n st = (Inr records, st')
     \<and> (case ATTENDANCE_RECORDS st of
          Some (Entries es) \<Rightarrow>
            (if isBrowser h then records = [r. Obj r \<leftarrow> es, valid_record r] else records = []) \<and> st' = st
        | Some Unparsable \<Rightarrow> records = []
        | _ \<Rightarrow> records = [] \<and> st' = st)"
proof -
  obtain k where n: "n = Suc (Suc (Suc k))"
    using assms by (metis Suc_le_D numeral_3_eq_3 Suc_le_mono)
  obtain st1 where e: "handleStorageError h now (Suc (Suc k)) SyntaxError st = (Inr (), st1)"
    using handleStorageError_returns by blast
  show ?thesis
    unfolding n getRecords.simps(2)[of h now "Suc (Suc k)" st] e
    by (simp add: valid_records_conv split: option.splits payload.splits)
qed

theorem getRecords_total_witness:
  "(3::nat) \<le> 3
   \<and> getRecords utc_browser 0 3
        \<lparr>ATTENDANCE_RECORDS = Some Unparsable, DATA_INTEGRITY_HASH = None, BACKUP_METADATA = None,
         STORAGE_QUOTA_WARNING = None, backups = []\<rparr>
       = (Inr [], \<lparr>ATTENDANCE_RECORDS = Some Unparsable, DATA_INTEGRITY_HASH = None,
                  BACKUP_METADATA = None, STORAGE_QUOTA_WARNING = None, backups = []\<rparr>)
   \<and> fst (getRecords utc_browser 0 3
        \<lparr>ATTENDANCE_RECORDS = Some (Entries
           [NotObject,
            Obj \<lparr>id = Some ''a'', prefectNumber = Some ''42'', role = Some Senior,
                 timestamp = Some 25200000, date = None\<rparr>,
            Obj \<lparr>id = Some '''', prefectNumber = Some ''43'', role = Some Junior,
                 timestamp = Some 25200000, date = Some ''1/1/1970''\<rparr>,
            Obj \<lparr>id = Some ''c'', prefectNumber = Some ''44'', role = Some Head,
                 timestamp = None, date = Some ''1/1/1970''\<rparr>]),
         DATA_INTEGRITY_HASH = None, BACKUP_METADATA = None,
         STORAGE_QUOTA_WARNING = None, backups = []\<rparr>)
       = Inr [\<lparr>id = Some ''a'', prefectNumber = Some ''42'', role = Some Senior,
                timestamp = Some 25200000, date = None\<rparr>]"
proof -
  let ?bad = "\<lparr>ATTENDANCE_RECORDS = Some Unparsable, DATA_INTEGRITY_HASH = None, BACKUP_METADATA = None,
         STORAGE_QUOTA_WARNING = None, backups = []\<rparr>"
  have b: "isBrowser utc_browser" by (simp add: utc_browser_def)
  have e1: "getRecords utc_browser 0 3 ?bad = (Inr [], ?bad)"
    by code_simp
  show ?thesis
    using getRecords_total[of 3 utc_browser 0 "\<lparr>ATTENDANCE_RECORDS = Some (Entries
           [NotObject,
            Obj \<lparr>id = Some ''a'', prefectNumber = Some ''42'', role = Some Senior,
                 timestamp = Some 25200000, date = None\<rparr>,
            Obj \<lparr>id = Some '''', prefectNumber = Some ''43'', role = Some Junior,
                 timestamp = Some 25200000, date = Some ''1/1/1970''\<rparr>,
            Obj \<lparr>id = Some ''c'', prefectNumber = Some ''44'', role = Some Head,
                 timestamp = None, date = Some ''1/1/1970''\<rparr>]),
         DATA_INTEGRITY_HASH = None, BACKUP_METADATA = None,
         STORAGE_QUOTA_WARNING = None, backups = []\<rparr>"] e1 b
    by (auto simp: valid_record_def truthy_def present_def)
qed

lemma getRecords_parsed_any:
  "isBrowser h \<Longrightarrow> ATTENDANCE_RECORDS st = Some (Entries es) \<Longrightarrow>
   getRecords h now n st = (if n = 0 then Inl RangeError else Inr (valid_records es), st)"
  by (cases n) simp_all

lemma updateBackupMetadata_parsed:
  assumes "isBrowser h" "ATTENDANCE_RECORDS st = Some (Entries es)"
  shows "\<exists>m. snd (updateBackupMetadata h now n st) = st\<lparr>BACKUP_METADATA := m\<rparr>"
proof (cases n)
  case 0
  have "st = st\<lparr>BACKUP_METADATA := BACKUP_METADATA st\<rparr>" by simp
  then show ?thesis using 0 by (metis updateBackupMetadata.simps(1) snd_conv)
next
  case (Suc k)
  have "snd (updateBackupMetadata h now (Suc k) st) = st\<lparr>BACKUP_METADATA := BACKUP_METADATA st\<rparr>
      \<or> snd (updateBackupMetadata h now (Suc k) st) = st\<lparr>BACKUP_METADATA := Some (now, length (valid_records es))\<rparr>"
    using assms by (simp add: getRecords_parsed_any setItem_def)
  then show ?thesis unfolding Suc by blast
qed

text \<open>Whenever \<open>saveRecords\<close> returns, the store holds its argument.\<close>

lemma saveRecords_stores:
  assumes br: "isBrowser h" and ok: "saveRecords h now n records st = (Inr u, st')"
  shows "ATTENDANCE_RECORDS st' = Some (Entries (map Obj records))"
proof (cases n)
  case 0
  then show ?thesis using ok by simp
next
  case (Suc k)
  define st1 where "st1 = snd (if quotaOver90 h st then handleQuotaExceeded h now k st else (Inr (), st))"
  define st2 where "st2 = st1\<lparr>ATTENDANCE_RECORDS := Some (Entries (map Obj records))\<rparr>"
  have "\<exists>hash. st' = snd (updateBackupMetadata h now k (st2\<lparr>DATA_INTEGRITY_HASH := Some hash\<rparr>))"
    using ok br unfolding Suc st2_def st1_def
    by (auto simp: setItem_def split: prod.splits sum.splits if_splits) (metis snd_conv)+
  then obtain hash where s: "st' = snd (updateBackupMetadata h now k (st2\<lparr>DATA_INTEGRITY_HASH := Some hash\<rparr>))"
    by blast
  have p: "ATTENDANCE_RECORDS (st2\<lparr>DATA_INTEGRITY_HASH := Some hash\<rparr>) = Some (Entries (map Obj records))"
    by (simp add: st2_def)
  obtain m where "st' = (st2\<lparr>DATA_INTEGRITY_HASH := Some hash\<rparr>)\<lparr>BACKUP_METADATA := m\<rparr>"
    using updateBackupMetadata_parsed[OF br p] s by metis
  then show ?thesis by (simp add: st2_def)
qed

lemma saveRecords_succeeds:
  assumes br: "isBrowser h" and fit: "\<forall>s. fits h s"
    and size: "int (length (JSON_stringify records)) \<le> MAX_STORAGE_SIZE"
    and ids: "\<not> list_ex (\<lambda>r. id r = None) (butlast records)"
    and n: "2 \<le> n"
  shows "\<exists>st'. saveRecords h now n records st = (Inr (), st')
           \<and> ATTENDANCE_RECORDS st' = Some (Entries (map Obj records))"
proof -
  obtain k where k: "n = Suc (Suc k)"
    using n by (metis Suc_le_D numeral_2_eq_2 Suc_le_mono)
  obtain st1 where q: "handleQuotaExceeded h now (Suc k) st = (Inr (), st1)"
    using handleQuotaExceeded_returns by blast
  define st0 where "st0 = (if quotaOver90 h st then st1 else st)"
  define hash where "hash = int_toString36 (sint (hash_string (JSON_stringify (sort_by (byId h) records))))"
  define st3 where "st3 = st0\<lparr>ATTENDANCE_RECORDS := Some (Entries (map Obj records)),
                               DATA_INTEGRITY_HASH := Some hash\<rparr>"
  obtain st4 where m: "updateBackupMetadata h now (Suc k) st3 = (Inr (), st4)"
    using updateBackupMetadata_returns by blast
  have "saveRecords h now (Suc (Suc k)) records st = (Inr (), st4)"
    unfolding saveRecords.simps(2)[of h now "Suc k" records st]
    using br fit size ids q m
    by (cases "quotaOver90 h st")
      (simp_all add: setItem_def generateDataHash_def st3_def st0_def hash_def
        del: handleQuotaExceeded.simps updateBackupMetadata.simps)
  then show ?thesis
    using saveRecords_stores[OF br] k by blast
qed

lemma valid_records_map_Obj:
  "list_all valid_record rs \<Longrightarrow> valid_records (map Obj rs) = rs"
  by (induction rs) simp_all

text \<open>
  Claim C7 (backup round trip). In a browser, when every stored element is a record with
  the four required properties (no filtering is needed) and \<open>createManualBackup\<close> and
  \<open>restoreFromBackup\<close> of its text both return, the stored records afterwards are the
  stored records before, and \<open>getRecords\<close> returns the same list of records, field by
  field, before and after.
\<close>

theorem backup_round_trip:
  assumes br: "isBrowser h"
    and stored: "ATTENDANCE_RECORDS st = Some (Entries (map Obj rs))"
    and nofilter: "list_all valid_record rs"
    and backup: "createManualBackup h now n st = (Inr b, st1)"
    and restore: "restoreFromBackup h now' n' b st1 = (Inr u, st2)"
  shows "ATTENDANCE_RECORDS st2 = ATTENDANCE_RECORDS st
         \<and> getRecords h t (Suc k) st2 = (Inr rs, st2)
         \<and> getRecords h t (Suc k) st = (Inr rs, st)"
proof -
  have v: "valid_records (map Obj rs) = rs"
    using nofilter by (rule valid_records_map_Obj)
  have b: "b = Snapshot (map Obj rs)"
    using backup br stored v
    by (auto simp: createManualBackup_def getRecords_parsed_any setItem_def
        split: if_splits prod.splits sum.splits)
  have "saveRecords h now' n' rs st1 = (Inr u, st2)"
    using restore br unfolding b by (simp add: restoreFromBackup_def v)
  then have s2: "ATTENDANCE_RECORDS st2 = Some (Entries (map Obj rs))"
    by (rule saveRecords_stores[OF br])
  show ?thesis
    using br stored s2 by (simp add: v)
qed

theorem backup_round_trip_witness:
  "isBrowser utc_browser
   \<and> list_all valid_record
        [\<lparr>id = Some ''b'', prefectNumber = Some ''42'', role = Some Senior,
          timestamp = Some 25200000, date = Some ''1/1/1970''\<rparr>,
         \<lparr>id = Some ''a'', prefectNumber = Some ''7'', role = Some Head,
          timestamp = Some 25100000, date = None\<rparr>]
   \<and> (\<exists>st1 st2.
        createManualBackup utc_browser 1000 3
          \<lparr>ATTENDANCE_RECORDS = Some (Entries (map Obj
             [\<lparr>id = Some ''b'', prefectNumber = Some ''42'', role = Some Senior,
               timestamp = Some 25200000, date = Some ''1/1/1970''\<rparr>,
              \<lparr>id = Some ''a'', prefectNumber = Some ''7'', role = Some Head,
               timestamp = Some 25100000, date = None\<rparr>])),
           DATA_INTEGRITY_HASH = None, BACKUP_METADATA = None,
           STORAGE_QUOTA_WARNING = None, backups = []\<rparr>
         = (Inr (Snapshot (map Obj
             [\<lparr>id = Some ''b'', prefectNumber = Some ''42'', role = Some Senior,
               timestamp = Some 25200000, date = Some ''1/1/1970''\<rparr>,
              \<lparr>id = Some ''a'', prefectNumber = Some ''7'', role = Some Head,
               timestamp = Some 25100000, date = None\<rparr>])), st1)
        \<and> restoreFromBackup utc_browser 2000 3
          (Snapshot (map Obj
           [\<lparr>id = Some ''b'', prefectNumber = Some ''42'', role = Some Senior,
             timestamp = Some 25200000, date = Some ''1/1/1970''\<rparr>,
            \<lparr>id = Some ''a'', prefectNumber = Some ''7'', role = Some Head,
             timestamp = Some 25100000, date = None\<rparr>])) st1 = (Inr (), st2)
        \<and> getRecords utc_browser 3000 (Suc 0) st2
          = (Inr [\<lparr>id = Some ''b'', prefectNumber = Some ''42'', role = Some Senior,
                   timestamp = Some 25200000, date = Some ''1/1/1970''\<rparr>,
                  \<lparr>id = Some ''a'', prefectNumber = Some ''7'', role = Some Head,
                   timestamp = Some 25100000, date = None\<rparr>], st2))"
proof -
  let ?rs = "[\<lparr>id = Some ''b'', prefectNumber = Some ''42'', role = Some Senior,
          timestamp = Some 25200000, date = Some ''1/1/1970''\<rparr>,
         \<lparr>id = Some ''a'', prefectNumber = Some ''7'', role = Some Head,
          timestamp = Some 25100000, date = None\<rparr>]"
  let ?st = "\<lparr>ATTENDANCE_RECORDS = Some (Entries (map Obj ?rs)),
         DATA_INTEGRITY_HASH = None, BACKUP_METADATA = None,
         STORAGE_QUOTA_WARNING = None, backups = []\<rparr>"
  have br: "isBrowser utc_browser" by (simp add: utc_browser_def)
  have ft: "\<forall>s. fits utc_browser s" by (simp add: utc_browser_def)
  have v: "list_all valid_record ?rs"
    by (simp add: valid_record_def truthy_def present_def)
  have stored: "ATTENDANCE_RECORDS ?st = Some (Entries (map Obj ?rs))" by simp
  obtain st1 where c: "createManualBackup utc_browser 1000 3 ?st = (Inr (Snapshot (map Obj ?rs)), st1)"
    using br ft stored v
    by (simp add: createManualBackup_def getRecords_parsed_any setItem_def valid_records_map_Obj
        numeral_3_eq_3 del: getRecords.simps)
  have size: "int (length (JSON_stringify ?rs)) \<le> MAX_STORAGE_SIZE"
    by code_simp
  have ids: "\<not> list_ex (\<lambda>r. id r = None) (butlast ?rs)" by simp
  obtain st2 where s: "saveRecords utc_browser 2000 3 ?rs st1 = (Inr (), st2)"
    using saveRecords_succeeds[OF br ft size ids, of 3 2000 st1] by auto
  have r: "restoreFromBackup utc_browser 2000 3 (Snapshot (map Obj ?rs)) st1 = (Inr (), st2)"
    using br s by (simp add: restoreFromBackup_def valid_records_map_Obj[OF v] del: valid_records.simps list.map)
  have g: "getRecords utc_browser 3000 (Suc 0) st2 = (Inr ?rs, st2)"
    using backup_round_trip[OF br stored v c r] by blast
  show ?thesis
    by (intro conjI exI[of _ st1] exI[of _ st2]) (rule br v c r g)+
qed

section \<open>Quota pressure\<close>

lemma length_join:
  "length (join sep xs) \<le> sum_list (map length xs) + length sep * length xs"
  by (induction sep xs rule: join.induct) simp_all

lemma length_json_escape: "length (json_escape c) \<le> 6"
  by (simp add: json_escape_def Let_def)

lemma length_concat_escape: "length (concat (map json_escape s)) \<le> 6 * length s"
proof (induction s)
  case Nil
  then show ?case by simp
next
  case (Cons c s)
  then show ?case using length_json_escape[of c] by simp
qed

lemma length_json_quote: "length (json_quote s) \<le> 2 + 6 * length s"
  using length_concat_escape[of s] by (simp add: json_quote_def)


lemma json_member_bound:
  "sum_list (map length (json_member k v)) \<le> 5 + 6 * length k + 6 * olen v
   \<and> length (json_member k v) \<le> 1"
  using length_json_quote[of k] length_json_quote[of "the v"]
  by (cases v) (simp_all add: json_member_def olen_def)

lemma length_toISOString: "length (toISOString t) \<le> 27"
  by (simp add: toISOString_def year_text_def pad2_def pad3_def pad4_def pad6_def Let_def
      split: prod.splits)

lemma length_role_name: "length (role_name r) \<le> 16"
  by (cases r) simp_all

lemma length_stringify_record:
  "length (stringify_record r) \<le> 600 + 6 * (olen (id r) + olen (prefectNumber r) + olen (date r))"
proof -
  let ?m1 = "json_member ''id'' (id r)"
  let ?m2 = "json_member ''prefectNumber'' (prefectNumber r)"
  let ?m3 = "json_member ''role'' (map_option role_name (role r))"
  let ?m4 = "json_member ''timestamp'' (map_option toISOString (timestamp r))"
  let ?m5 = "json_member ''date'' (date r)"
  have o3: "olen (map_option role_name (role r)) \<le> 16"
    using length_role_name by (cases "role r") (simp_all add: olen_def)
  have o4: "olen (map_option toISOString (timestamp r)) \<le> 27"
    using length_toISOString by (cases "timestamp r") (simp_all add: olen_def)
  have b1: "sum_list (map length ?m1) \<le> 5 + 6 * 2 + 6 * olen (id r)" "length ?m1 \<le> 1"
    using json_member_bound[of "''id''" "id r"] by simp_all
  have b2: "sum_list (map length ?m2) \<le> 5 + 6 * 13 + 6 * olen (prefectNumber r)" "length ?m2 \<le> 1"
    using json_member_bound[of "''prefectNumber''" "prefectNumber r"] by simp_all
  have b3: "sum_list (map length ?m3) \<le> 5 + 6 * 4 + 6 * 16" "length ?m3 \<le> 1"
    using json_member_bound[of "''role''" "map_option role_name (role r)"] o3 by simp_all
  have b4: "sum_list (map length ?m4) \<le> 5 + 6 * 9 + 6 * 27" "length ?m4 \<le> 1"
    using json_member_bound[of "''timestamp''" "map_option toISOString (timestamp r)"] o4 by simp_all
  have b5: "sum_list (map length ?m5) \<le> 5 + 6 * 4 + 6 * olen (date r)" "length ?m5 \<le> 1"
    using json_member_bound[of "''date''" "date r"] by simp_all
  have "length (join '','' (?m1 @ ?m2 @ ?m3 @ ?m4 @ ?m5))
      \<le> sum_list (map length (?m1 @ ?m2 @ ?m3 @ ?m4 @ ?m5)) + 1 * length (?m1 @ ?m2 @ ?m3 @ ?m4 @ ?m5)"
    using length_join[of "'',''" "?m1 @ ?m2 @ ?m3 @ ?m4 @ ?m5"] by simp
  then have "length (join '','' (?m1 @ ?m2 @ ?m3 @ ?m4 @ ?m5))
      \<le> 590 + 6 * (olen (id r) + olen (prefectNumber r) + olen (date r))"
    using b1 b2 b3 b4 b5 by simp
  then show ?thesis by (simp add: stringify_record_def)
qed

lemma length_JSON_stringify:
  assumes "\<forall>r \<in> set rs. length (stringify_record r) \<le> b"
  shows "length (JSON_stringify rs) \<le> 2 + (b + 1) * length rs"
proof -
  have "sum_list (map length (map stringify_record rs)) \<le> b * length rs"
    using assms by (induction rs) auto
  then show ?thesis
    using length_join[of "'',''" "map stringify_record rs"] by (simp add: JSON_stringify_def)
qed

lemma set_insert_by: "set (insert_by cmp x xs) = insert x (set xs)"
  by (induction xs) auto

lemma set_sort_by: "set (sort_by cmp xs) = set xs"
  by (induction xs) (simp_all add: sort_by_def set_insert_by)

lemma length_insert_by: "length (insert_by cmp x xs) = Suc (length xs)"
  by (induction xs) auto

lemma length_sort_by: "length (sort_by cmp xs) = length xs"
  by (induction xs) (simp_all add: sort_by_def length_insert_by)


lemma sample_record_bound: "length (stringify_record (sample_record k)) \<le> 660"
  using length_stringify_record[of "sample_record k"]
  by (simp add: sample_record_def olen_def pad4_def pad3_def pad2_def)

lemma sample_record_valid: "valid_record (sample_record k)"
  by (simp add: sample_record_def valid_record_def truthy_def present_def pad4_def)

lemma no_missing_id:
  "\<forall>r \<in> set rs. id r \<noteq> None \<Longrightarrow> \<not> list_ex (\<lambda>r. id r = None) (butlast rs)"
  by (auto simp: list_ex_iff dest: in_set_butlastD)

lemma pressed_browser_facts:
  "isBrowser pressed_browser" "\<forall>s. fits pressed_browser s" "\<forall>s. quotaOver90 pressed_browser s"
  by (simp_all add: pressed_browser_def utc_browser_def)

lemma samples_fit:
  assumes "set rs \<subseteq> range sample_record" "length rs \<le> 1200"
  shows "int (length (JSON_stringify rs)) \<le> MAX_STORAGE_SIZE"
proof -
  have "\<forall>r \<in> set rs. length (stringify_record r) \<le> 660"
    using assms(1) sample_record_bound by auto
  then have "length (JSON_stringify rs) \<le> 2 + 661 * length rs"
    using length_JSON_stringify[of rs 660] by simp
  also have "\<dots> \<le> 2 + 661 * 1200" using assms(2) by simp
  finally show ?thesis by (simp add: MAX_STORAGE_SIZE_def)
qed

lemma samples_ids:
  assumes "set rs \<subseteq> range sample_record"
  shows "\<not> list_ex (\<lambda>r. id r = None) (butlast rs)"
proof (rule no_missing_id)
  show "\<forall>r \<in> set rs. id r \<noteq> None"
    using assms by (auto simp: sample_record_def)
qed

text \<open>
  Claim C2 (quota eviction), evaluated at the scenario of the claim: 1200 records are
  stored, the quota check reports more than 90 per cent, and \<open>saveRecords\<close> is called
  with the 1200 records. The call returns normally, and the live record set afterwards is
  the 1200 records, not 800: \<open>handleQuotaExceeded\<close> writes the 800 newest, and
  \<open>saveRecords\<close> then writes its own argument over them.
\<close>

theorem saveRecords_under_pressure_keeps_1200:
  "quotaOver90 pressed_browser (store_of (map sample_record [0..<1200]))
   \<and> fst (getRecords pressed_browser 0 1 (store_of (map sample_record [0..<1200])))
       = Inr (map sample_record [0..<1200])
   \<and> fst (saveRecords pressed_browser 0 50 (map sample_record [0..<1200])
            (store_of (map sample_record [0..<1200]))) = Inr ()
   \<and> fst (getRecords pressed_browser 0 1
            (snd (saveRecords pressed_browser 0 50 (map sample_record [0..<1200])
                   (store_of (map sample_record [0..<1200])))))
       = Inr (map sample_record [0..<1200])
   \<and> length (map sample_record [0..<1200]) = 1200"
proof -
  define rs where "rs = map sample_record [0..<1200]"
  have sub: "set rs \<subseteq> range sample_record" by (auto simp: rs_def)
  have len: "length rs = 1200" by (simp add: rs_def)
  have allv: "list_all valid_record rs"
    by (simp add: rs_def list_all_iff sample_record_valid)
  have v: "valid_records (map Obj rs) = rs"
    by (rule valid_records_map_Obj[OF allv])
  obtain st' where s: "saveRecords pressed_browser 0 50 rs (store_of rs) = (Inr (), st')"
    and p: "ATTENDANCE_RECORDS st' = Some (Entries (map Obj rs))"
    using saveRecords_succeeds[OF pressed_browser_facts(1,2) samples_fit[OF sub] samples_ids[OF sub],
        of 50 0 "store_of rs"] len by auto
  have g0: "getRecords pressed_browser 0 (Suc 0) (store_of rs) = (Inr rs, store_of rs)"
    using getRecords_parsed[OF pressed_browser_facts(1), of "store_of rs" "map Obj rs" 0 0] v
    by (simp add: store_of_def del: getRecords.simps)
  have g1: "getRecords pressed_browser 0 (Suc 0) st' = (Inr rs, st')"
    using getRecords_parsed[OF pressed_browser_facts(1) p, of 0 0] v by (simp del: getRecords.simps)
  have a: "fst (saveRecords pressed_browser 0 50 rs (store_of rs)) = Inr ()"
    unfolding s by simp
  have b: "fst (getRecords pressed_browser 0 1 (snd (saveRecords pressed_browser 0 50 rs (store_of rs))))
      = Inr rs"
    unfolding s snd_conv One_nat_def g1 by simp
  have c: "fst (getRecords pressed_browser 0 1 (store_of rs)) = Inr rs"
    unfolding One_nat_def g0 by simp
  show ?thesis
    unfolding rs_def[symmetric]
    using pressed_browser_facts(3) len a b c by blast
qed

text \<open>
  On its own, \<open>handleQuotaExceeded\<close> does what the eviction policy says: with 1200 records
  stored it leaves the 800 that come first by timestamp, newest first.
\<close>

lemma handleQuotaExceeded_evicts:
  "fst (getRecords pressed_browser 0 1
         (snd (handleQuotaExceeded pressed_browser 0 50 (store_of (map sample_record [0..<1200])))))
     = Inr (take 800 (sort_by byTimestampDesc (map sample_record [0..<1200])))
   \<and> length (take 800 (sort_by byTimestampDesc (map sample_record [0..<1200]))) = 800"
proof -
  define rs where "rs = map sample_record [0..<1200]"
  define keep where "keep = take 800 (sort_by byTimestampDesc rs)"
  have sub: "set rs \<subseteq> range sample_record" by (auto simp: rs_def)
  have len: "length rs = 1200" by (simp add: rs_def)
  have ksub: "set keep \<subseteq> range sample_record"
    using sub set_take_subset[of 800 "sort_by byTimestampDesc rs"]
    by (auto simp: keep_def set_sort_by)
  have klen: "length keep = 800" by (simp add: keep_def length_sort_by len)
  have allv: "list_all valid_record rs"
    by (simp add: rs_def list_all_iff sample_record_valid)
  have kallv: "list_all valid_record keep"
    using ksub by (auto simp: list_all_iff sample_record_valid)
  have c: "cleanOldBackups pressed_browser (store_of rs) = store_of rs"
    by (simp add: cleanOldBackups_def store_of_def sort_by_def)
  have g: "getRecords pressed_browser 0 49 (store_of rs) = (Inr rs, store_of rs)"
    using getRecords_parsed_any[OF pressed_browser_facts(1), of "store_of rs" "map Obj rs" 0 49]
      valid_records_map_Obj[OF allv]
    by (simp add: store_of_def del: getRecords.simps)
  obtain st1 where s: "saveRecords pressed_browser 0 49 keep (store_of rs) = (Inr (), st1)"
    and p: "ATTENDANCE_RECORDS st1 = Some (Entries (map Obj keep))"
    using saveRecords_succeeds[OF pressed_browser_facts(1,2) samples_fit[OF ksub] samples_ids[OF ksub],
        of 49 0 "store_of rs"] klen by auto
  have h50: "(50::nat) = Suc 49" by simp
  have "snd (handleQuotaExceeded pressed_browser 0 50 (store_of rs))
      = st1\<lparr>STORAGE_QUOTA_WARNING := Some 0\<rparr>"
    unfolding h50 handleQuotaExceeded.simps(2) c g
    using pressed_browser_facts(1,2) len s
    by (simp add: keep_def[symmetric] setItem_def del: saveRecords.simps)
  then have "getRecords pressed_browser 0 (Suc 0)
        (snd (handleQuotaExceeded pressed_browser 0 50 (store_of rs)))
      = (Inr keep, snd (handleQuotaExceeded pressed_browser 0 50 (store_of rs)))"
    using getRecords_parsed[OF pressed_browser_facts(1), of "st1\<lparr>STORAGE_QUOTA_WARNING := Some 0\<rparr>" "map Obj keep" 0 0]
      p valid_records_map_Obj[OF kallv]
    by (simp del: getRecords.simps handleQuotaExceeded.simps)
  then show ?thesis
    unfolding rs_def[symmetric] keep_def[symmetric] One_nat_def using klen by simp
qed

section \<open>Updates\<close>

lemma handleQuotaExceeded_Inl:
  assumes "handleQuotaExceeded h now n st = (Inl e, st')"
  shows "e = RangeError"
proof (cases n)
  case 0
  with assms show ?thesis by simp
next
  case (Suc k)
  with assms handleQuotaExceeded_returns[of h now k st] show ?thesis
    by (auto simp del: handleQuotaExceeded.simps)
qed

lemma attemptDataRecovery_Inl:
  assumes "attemptDataRecovery h now n st = (Inl e, st')"
  shows "e = RangeError"
proof (cases n)
  case 0
  with assms show ?thesis by simp
next
  case (Suc k)
  with assms attemptDataRecovery_returns[of h now k st] show ?thesis
    by (auto simp del: attemptDataRecovery.simps)
qed

lemma handleStorageError_Inl:
  assumes "handleStorageError h now n err st = (Inl e, st')"
  shows "e = RangeError"
proof (cases n)
  case 0
  with assms show ?thesis by simp
next
  case (Suc k)
  with assms show ?thesis
    by (auto split: if_splits prod.splits sum.splits
        dest: handleQuotaExceeded_Inl attemptDataRecovery_Inl
        simp del: handleQuotaExceeded.simps attemptDataRecovery.simps)
qed

lemma getRecords_Inl:
  assumes "getRecords h now n st = (Inl e, st')"
  shows "e = RangeError"
proof (cases n)
  case 0
  with assms show ?thesis by simp
next
  case (Suc k)
  with assms show ?thesis
    by (auto split: if_splits prod.splits sum.splits option.splits payload.splits
        dest: handleStorageError_Inl simp del: handleStorageError.simps)
qed

lemma findIndex_find:
  "findIndex P xs = Some k \<Longrightarrow> find P xs = Some (xs ! k) \<and> k < length xs \<and> P (xs ! k)"
  by (induction xs arbitrary: k) (auto split: if_splits)

lemma find_findIndex:
  "find P xs = Some x \<Longrightarrow> \<exists>k. findIndex P xs = Some k \<and> xs ! k = x"
  by (induction xs) (auto split: if_splits)

lemma duplicate_on_message_neq:
  "duplicate_on_message p ro d \<noteq> ''Record not found''"
  "duplicate_on_message p ro d \<noteq> ''Failed to update attendance record. Please try again.''"
  by (simp_all add: duplicate_on_message_def)

text \<open>
  Claim C9 (an update that sets neither prefectNumber nor role is not re-validated).
  \<open>updateAttendance\<close> throws the duplicate error only when the update carries a truthy
  \<open>prefectNumber\<close> or a \<open>role\<close>. With neither, for an existing record and a write
  that succeeds, it returns the merged record and stores the list with the merged record
  in its place, also when the new \<open>date\<close> makes its triple equal to that of another
  stored record.
\<close>

theorem updateAttendance_date_only:
  "(fst (updateAttendance h now n i u st) = Inl (Error (duplicate_on_message p ro d))
      \<longrightarrow> truthy (prefectNumber u) \<or> present (role u))
   \<and> (prefectNumber u = None \<and> role u = None \<and> isBrowser h
        \<and> ATTENDANCE_RECORDS st = Some (Entries (map Obj rs)) \<and> list_all valid_record rs
        \<and> findIndex (\<lambda>r. id r = Some i) rs = Some k
        \<and> saveRecords h now n (rs[k := merge_record (rs ! k) u]) st = (Inr (), st')
      \<longrightarrow> updateAttendance h now n i u st = (Inr (merge_record (rs ! k) u), st')
          \<and> ATTENDANCE_RECORDS st' = Some (Entries (map Obj (rs[k := merge_record (rs ! k) u]))))"
proof -
  have p1: "truthy (prefectNumber u) \<or> present (role u)"
    if a: "fst (updateAttendance h now n i u st) = Inl (Error (duplicate_on_message p ro d))"
  proof (rule ccontr)
    assume "\<not> (truthy (prefectNumber u) \<or> present (role u))"
    then show False
      using a duplicate_on_message_neq[of p ro d]
      by (auto simp: updateAttendance_def split: prod.splits sum.splits option.splits
          dest: getRecords_Inl)
  qed
  have p2: "updateAttendance h now n i u st = (Inr (merge_record (rs ! k) u), st')
          \<and> ATTENDANCE_RECORDS st' = Some (Entries (map Obj (rs[k := merge_record (rs ! k) u])))"
    if a: "prefectNumber u = None \<and> role u = None \<and> isBrowser h
        \<and> ATTENDANCE_RECORDS st = Some (Entries (map Obj rs)) \<and> list_all valid_record rs
        \<and> findIndex (\<lambda>r. id r = Some i) rs = Some k
        \<and> saveRecords h now n (rs[k := merge_record (rs ! k) u]) st = (Inr (), st')"
  proof -
    from a have br: "isBrowser h" and stored: "ATTENDANCE_RECORDS st = Some (Entries (map Obj rs))"
      and v: "valid_records (map Obj rs) = rs"
      and k: "findIndex (\<lambda>r. id r = Some i) rs = Some k"
      and s: "saveRecords h now n (rs[k := merge_record (rs ! k) u]) st = (Inr (), st')"
      and u: "prefectNumber u = None" "role u = None"
      by (simp_all add: valid_records_map_Obj)
    have n0: "n \<noteq> 0" using s by (cases n) simp_all
    have g: "getRecords h now n st = (Inr rs, st)"
      using getRecords_parsed_any[OF br stored, of now n] n0 v by simp
    have f: "find (\<lambda>r. id r = Some i) rs = Some (rs ! k)"
      using findIndex_find[OF k] by simp
    have "updateAttendance h now n i u st = (Inr (merge_record (rs ! k) u), st')"
      using br u by (simp add: updateAttendance_def updateRecord_def g f k s truthy_def present_def)
    moreover have "ATTENDANCE_RECORDS st' = Some (Entries (map Obj (rs[k := merge_record (rs ! k) u])))"
      by (rule saveRecords_stores[OF br s])
    ultimately show ?thesis by simp
  qed
  show ?thesis using p1 p2 by blast
qed

theorem updateAttendance_date_only_witness:
  "isBrowser utc_browser
   \<and> list_all valid_record
        [\<lparr>id = Some ''a'', prefectNumber = Some ''42'', role = Some Senior,
          timestamp = Some 25200000, date = Some ''1/1/1970''\<rparr>,
         \<lparr>id = Some ''b'', prefectNumber = Some ''42'', role = Some Senior,
          timestamp = Some 111600000, date = Some ''1/2/1970''\<rparr>]
   \<and> findIndex (\<lambda>r. id r = Some ''b'')
        [\<lparr>id = Some ''a'', prefectNumber = Some ''42'', role = Some Senior,
          timestamp = Some 25200000, date = Some ''1/1/1970''\<rparr>,
         \<lparr>id = Some ''b'', prefectNumber = Some ''42'', role = Some Senior,
          timestamp = Some 111600000, date = Some ''1/2/1970''\<rparr>] = Some 1
   \<and> (\<exists>st'. updateAttendance utc_browser 0 3 ''b''
          \<lparr>id = None, prefectNumber = None, role = None, timestamp = None, date = Some ''1/1/1970''\<rparr>
          (store_of
            [\<lparr>id = Some ''a'', prefectNumber = Some ''42'', role = Some Senior,
              timestamp = Some 25200000, date = Some ''1/1/1970''\<rparr>,
             \<lparr>id = Some ''b'', prefectNumber = Some ''42'', role = Some Senior,
              timestamp = Some 111600000, date = Some ''1/2/1970''\<rparr>])
        = (Inr \<lparr>id = Some ''b'', prefectNumber = Some ''42'', role = Some Senior,
                 timestamp = Some 111600000, date = Some ''1/1/1970''\<rparr>, st')
        \<and> ATTENDANCE_RECORDS st' = Some (Entries
            [Obj \<lparr>id = Some ''a'', prefectNumber = Some ''42'', role = Some Senior,
                  timestamp = Some 25200000, date = Some ''1/1/1970''\<rparr>,
             Obj \<lparr>id = Some ''b'', prefectNumber = Some ''42'', role = Some Senior,
                  timestamp = Some 111600000, date = Some ''1/1/1970''\<rparr>]))"
proof -
  let ?a = "\<lparr>id = Some ''a'', prefectNumber = Some ''42'', role = Some Senior,
          timestamp = Some 25200000, date = Some ''1/1/1970''\<rparr>"
  let ?b = "\<lparr>id = Some ''b'', prefectNumber = Some ''42'', role = Some Senior,
          timestamp = Some 111600000, date = Some ''1/2/1970''\<rparr>"
  let ?b' = "\<lparr>id = Some ''b'', prefectNumber = Some ''42'', role = Some Senior,
          timestamp = Some 111600000, date = Some ''1/1/1970''\<rparr>"
  let ?u = "\<lparr>id = None, prefectNumber = None, role = None, timestamp = None, date = Some ''1/1/1970''\<rparr>"
  have br: "isBrowser utc_browser" by (simp add: utc_browser_def)
  have ft: "\<forall>s. fits utc_browser s" by (simp add: utc_browser_def)
  have v: "list_all valid_record [?a, ?b]"
    by (simp add: valid_record_def truthy_def present_def)
  have k: "findIndex (\<lambda>r. id r = Some ''b'') [?a, ?b] = Some 1" by simp
  have m: "[?a, ?b][1 := merge_record ([?a, ?b] ! 1) ?u] = [?a, ?b']"
    by (simp add: merge_record_def or_else_def)
  have mb: "merge_record ([?a, ?b] ! 1) ?u = ?b'"
    by (simp add: merge_record_def or_else_def)
  have size: "int (length (JSON_stringify [?a, ?b'])) \<le> MAX_STORAGE_SIZE"
    by code_simp
  have ids: "\<not> list_ex (\<lambda>r. id r = None) (butlast [?a, ?b'])" by simp
  obtain st' where s: "saveRecords utc_browser 0 3 [?a, ?b'] (store_of [?a, ?b]) = (Inr (), st')"
    using saveRecords_succeeds[OF br ft size ids, of 3 0 "store_of [?a, ?b]"] by auto
  have stored: "ATTENDANCE_RECORDS (store_of [?a, ?b]) = Some (Entries (map Obj [?a, ?b]))"
    by (simp add: store_of_def)
  have s': "saveRecords utc_browser 0 3 ([?a, ?b][1 := merge_record ([?a, ?b] ! 1) ?u]) (store_of [?a, ?b])
      = (Inr (), st')"
    unfolding m by (rule s)
  have "updateAttendance utc_browser 0 3 ''b'' ?u (store_of [?a, ?b])
          = (Inr (merge_record ([?a, ?b] ! 1) ?u), st')
        \<and> ATTENDANCE_RECORDS st' = Some (Entries (map Obj ([?a, ?b][1 := merge_record ([?a, ?b] ! 1) ?u])))"
    using updateAttendance_date_only[of utc_browser 0 3 "''b''" ?u "store_of [?a, ?b]" "None" "None" "None"
        "[?a, ?b]" 1 st'] br stored v k s'
    by (simp del: saveRecords.simps list_update.simps nth_Cons_Suc nth_Cons_0 add: )
  then have "updateAttendance utc_browser 0 3 ''b'' ?u (store_of [?a, ?b]) = (Inr ?b', st')
        \<and> ATTENDANCE_RECORDS st' = Some (Entries [Obj ?a, Obj ?b'])"
    unfolding m mb by simp
  then show ?thesis
    using br v k by blast
qed

section \<open>Bulk save and retention\<close>

text \<open>Every entry of a bulk save ends up in exactly one of the two lists, in order.\<close>

lemma bulk_entry_count:
  "length (success (fst (bulk_entry h now n uuid ts entry acc)))
     + length (errors (fst (bulk_entry h now n uuid ts entry acc)))
   = Suc (length (success (fst acc)) + length (errors (fst acc)))"
  by (simp add: bulk_entry_def split: prod.splits sum.splits bool.splits)

lemma bulk_loop_count:
  "length (success (fst (bulk_loop h now n uuids ts k entries acc)))
     + length (errors (fst (bulk_loop h now n uuids ts k entries acc)))
   = length entries + (length (success (fst acc)) + length (errors (fst acc)))"
proof (induction entries arbitrary: k acc)
  case Nil
  then show ?case by simp
next
  case (Cons entry entries)
  show ?case
    unfolding bulk_loop.simps Cons.IH bulk_entry_count by simp
qed

lemma saveBulkAttendance_processes_all:
  "length (success (fst (saveBulkAttendance h now n uuids attendanceData ts st)))
     + length (errors (fst (saveBulkAttendance h now n uuids attendanceData ts st)))
   = length attendanceData"
  by (simp add: saveBulkAttendance_def bulk_loop_count)

text \<open>
  The retention cut-off of \<open>cleanOldRecords\<close> is an invalid Date at every instant a clock
  can show: 999999999 days are 8.64e16 ms, ten times the range of a Date. No record is
  newer than an invalid Date, so the filter keeps nothing.
\<close>

lemma cutoff_date_invalid: "validTime now \<Longrightarrow> cutoff_date now = None"
  by (simp add: cutoff_date_def TimeClip_def validTime_def MAX_DAYS_def msPerDay_def)

lemma cleanOldRecords_keeps_nothing:
  "validTime now \<Longrightarrow> filter (newer_than (cutoff_date now)) records = []"
  by (simp add: cutoff_date_invalid newer_than_def split: option.splits)

text \<open>
  Claim C5 (bulk save), evaluated at the scenario of the claim: the same entry twice, in
  one call, on an empty store, in a browser whose clock shows 2024-11-02. Every entry is
  processed and lands in one of the two lists (lemma \<open>saveBulkAttendance_processes_all\<close>),
  but the second entry is not reported as a duplicate: both are saved, \<open>errors\<close> is empty,
  and the store is empty afterwards, because \<open>cleanOldRecords\<close> removes every record
  after each save (lemma \<open>cleanOldRecords_keeps_nothing\<close>).
\<close>

theorem saveBulkAttendance_same_entry_twice:
  "validTime 1730570096789
   \<and> saveBulkAttendance utc_browser 1730570096789 5 (\<lambda>k. pad4 (int k))
        [(''42'', Senior), (''42'', Senior)] 1730570096789 (store_of [])
     = (\<lparr>success =
          [\<lparr>id = Some ''0000'', prefectNumber = Some ''42'', role = Some Senior,
            timestamp = Some 1730570096789, date = Some ''20029''\<rparr>,
           \<lparr>id = Some ''0001'', prefectNumber = Some ''42'', role = Some Senior,
            timestamp = Some 1730570096789, date = Some ''20029''\<rparr>],
         errors = []\<rparr>,
        \<lparr>ATTENDANCE_RECORDS = Some (Entries []), DATA_INTEGRITY_HASH = Some ''28y'',
         BACKUP_METADATA = Some (1730570096789, 0), STORAGE_QUOTA_WARNING = None, backups = []\<rparr>)"
  by code_simp

end
